theory Spec2Isabelle
  imports Main "HOL-Library.Word"
begin

section \<open>The RDMA transport engine of AState\<close>

text \<open>
  A shallow embedding of \<^verbatim>\<open>src/transport/rdma_transporter.cpp\<close> and of the class
  declaration of \<^verbatim>\<open>RDMATransporter\<close> (the header that also defines
  \<^verbatim>\<open>GetRemoteAddrFromExtendInfo\<close>).

  The object is a record of its data members. Everything the object does to the outside
  (calls into the verbs backend, sleeps, operations on the sampler thread) is appended to
  a log of events, in program order, so that "no backend call", "exactly one submission"
  and "joined before clean" are properties of that log. The event of
  \<^verbatim>\<open>utrans_exec_transfer\<close> also records the handle the call returned. What the outside
  answers (return codes of the backend, the clock, the random port offset) is an argument
  of the modelled function. A C++ exception is the left summand of the result.

  Pointers and \<^verbatim>\<open>size_t\<close> are 64-bit words, so that the narrowing of a length to
  \<^verbatim>\<open>uint32_t\<close> is the one of the code. Ports, time-outs, retry counts and clock readings
  in milliseconds are \<open>int\<close>: the code adds at most a retry count to a port below 52011
  and subtracts two clock readings, far from the bounds of its machine integers.
\<close>

subsection \<open>Values\<close>

type_synonym ptr = "64 word"          \<comment> \<open>a \<^verbatim>\<open>void*\<close>; the null pointer is 0\<close>
type_synonym size_t = "64 word"
type_synonym uint32_t = "32 word"
type_synonym uint64_t = "64 word"
type_synonym utrans_ctx_ptr = "nat option"   \<comment> \<open>\<^verbatim>\<open>utrans_ctx_t*\<close>; \<open>None\<close> is \<^verbatim>\<open>nullptr\<close>\<close>
type_synonym op_handle = nat                 \<comment> \<open>a non-null \<^verbatim>\<open>utrans_req_info_t*\<close>\<close>

text \<open>The exception classes the code throws or catches; messages are left out.\<close>

datatype exn = invalid_argument | runtime_error | NonRetryableException | bad_any_cast

text \<open>
  Return codes of the backend. Their numeric values are in the backend's headers; the
  code only compares them with \<^verbatim>\<open>UTRANS_RET_SUCC\<close> and \<^verbatim>\<open>URES_SUCCESS\<close>.
\<close>

datatype utrans_ret = UTRANS_RET_SUCC | UTRANS_RET_FAIL int
datatype ures = URES_SUCCESS | URES_FAIL int
datatype user_op = USER_OP_READ | USER_OP_WRITE

text \<open>
  \<^verbatim>\<open>trans_req_t\<close> and \<^verbatim>\<open>trans_conf_t\<close> are aggregates of the backend, initialised
  positionally in the code. The fields the code reads back keep their names
  (\<^verbatim>\<open>inst_id\<close>, \<^verbatim>\<open>rbuf\<close>, \<^verbatim>\<open>lbuf_seg[0].addr_beg\<close>, \<^verbatim>\<open>trz_size\<close>); the others are named
  after their position and value.
\<close>

record lbuf_seg_t =
  addr_beg :: ptr
  trz_size :: uint32_t

record trans_req_t =
  inst_id :: uint64_t
  opcode :: user_op
  seg_num :: nat
  rbuf :: ptr
  field5 :: ptr
  lbuf_seg :: "lbuf_seg_t list"

record trans_conf_t =
  pollers :: int
  chunk :: int
  timeout :: int

datatype event =
    utrans_setup
  | utrans_get_instid utrans_ctx_ptr
  | utrans_setup_rpcsrv utrans_ctx_ptr int
  | utrans_query_instid utrans_ctx_ptr string int
  | utrans_exec_transfer utrans_ctx_ptr trans_req_t trans_conf_t "op_handle option"
  | utrans_get_req_exec_result op_handle
  | utrans_unref_req_info op_handle
  | utrans_regist_ram utrans_ctx_ptr ptr size_t int
  | utrans_regist_vram utrans_ctx_ptr ptr size_t int
  | utrans_dereg_mem utrans_ctx_ptr ptr size_t
  | utrans_print_perf_info utrans_ctx_ptr
  | utrans_clean utrans_ctx_ptr
  | numa_bind int
  | sleep_for int
  | store_perf_logging_thread_running bool
  | thread_start
  | thread_join

text \<open>
  \<^verbatim>\<open>Options\<close> is read through \<^verbatim>\<open>GetOptionValue<T>(options, KEY)\<close> only; the record has
  one field for each key the transporter reads, holding the value that call returns.
\<close>

record Options =
  TRANSFER_ENGINE_META_SERVICE_ADDRESS :: string
  TRANSFER_ENGINE_LOCAL_PORT :: int
  TRANSFER_ENGINE_SERVICE_FIXED_PORT :: bool
  TRANSFER_ENGINE_READ_TIMEOUT_MS :: int
  TRANSFER_ENGINE_WRITE_TIMEOUT_MS :: int
  TRANSFER_ENGINE_RDMA_NUM_POLLERS :: int
  TRANSFER_ENGINE_MAX_RDMA_DEVICES :: int
  TRANSFER_ENGINE_ENABLE_NUMA_ALLOCATION :: bool
  TRANSFER_ENGINE_ENABLE_PERF_METRICS :: bool
  TRANSFER_ENGINE_PERF_STATS_INTERVAL_MS :: int
  TRANSPORT_SEND_RETRY_COUNT :: int
  TRANSPORT_SEND_RETRY_SLEEP_MS :: int
  TRANSPORT_RECEIVE_RETRY_COUNT :: int
  TRANSPORT_RECEIVE_RETRY_SLEEP_MS :: int

text \<open>
  The outside of the object: the log of events, and how many transfer attempts the
  backend has been asked to serve (the backend's own count, by which a scripted backend
  chooses its answer).
\<close>

record world =
  trace :: "event list"
  served :: nat

text \<open>
  The data members of \<^verbatim>\<open>RDMATransporter\<close>, named without the trailing underscore of the
  source (Isabelle reserves such names), with \<^verbatim>\<open>is_running_\<close> of its base class
  \<^verbatim>\<open>BaseDataTransport\<close>. \<open>perf_logging_thread\<close> is whether the \<^verbatim>\<open>std::thread\<close> member is
  joinable. \<open>rpc_listen_port\<close> is the field of that name in the configuration
  \<^verbatim>\<open>utrans_get_conf(ctx_)\<close> returns; only the transporter writes it here (the backend is
  taken to bind the port it is given and to leave the field alone).
\<close>

record RDMATransporter =
  options :: Options
  local_server_name :: string
  local_server_port :: int
  meta_addr :: string
  write_timeout_ms :: int
  read_timeout_ms :: int
  ctx :: utrans_ctx_ptr
  enable_perf_metrics :: bool
  perf_stats_interval_ms :: int
  perf_logging_thread_running :: bool
  perf_logging_thread :: bool
  rdma_numa_node :: int
  nic_nodes :: "(string \<times> int) list"
  last_send_receive_time :: int
  is_running :: bool
  rpc_listen_port :: int
  world :: world

definition emit :: "event \<Rightarrow> RDMATransporter \<Rightarrow> RDMATransporter" where
  "emit e m = m\<lparr>world := (world m)\<lparr>trace := trace (world m) @ [e]\<rparr>\<rparr>"

definition events :: "RDMATransporter \<Rightarrow> event list" where
  "events m = trace (world m)"

text \<open>
  A freshly constructed object: the default member initialisers of the class
  declaration, and \<^verbatim>\<open>is_running_\<close> false. \<^verbatim>\<open>options_\<close> is default-constructed and
  never assigned by the transporter, so its content is a parameter.
\<close>

definition New :: "Options \<Rightarrow> RDMATransporter" where
  "New dflt = \<lparr> options = dflt, local_server_name = [], local_server_port = 0,
     meta_addr = [], write_timeout_ms = -1, read_timeout_ms = -1, ctx = None,
     enable_perf_metrics = True, perf_stats_interval_ms = 500,
     perf_logging_thread_running = False, perf_logging_thread = False,
     rdma_numa_node = -1, nic_nodes = [], last_send_receive_time = 0,
     is_running = False, rpc_listen_port = 0,
     world = \<lparr> trace = [], served = 0 \<rparr> \<rparr>"

definition GetBindPort :: "RDMATransporter \<Rightarrow> int" where
  "GetBindPort m = local_server_port m"

subsection \<open>The extend-info carrier\<close>

text \<open>
  \<^verbatim>\<open>ExtendInfo\<close> is a vector of \<^verbatim>\<open>std::any\<close>; the transporter only asks whether element 0
  holds a \<^verbatim>\<open>const void*\<close>. The argument is a pointer to the vector and may be null.
\<close>

datatype any = any_const_void_ptr ptr | any_other

fun GetRemoteAddrFromExtendInfo :: "any list option \<Rightarrow> exn + ptr" where
  "GetRemoteAddrFromExtendInfo None = Inr 0"
| "GetRemoteAddrFromExtendInfo (Some []) = Inr 0"
| "GetRemoteAddrFromExtendInfo (Some (any_const_void_ptr p # rest)) = Inr p"
| "GetRemoteAddrFromExtendInfo (Some (any_other # rest)) = Inl bad_any_cast"

subsection \<open>The retry runner\<close>

text \<open>
  Modelled from the spec: the retry policies \<^verbatim>\<open>CountingRetry\<close> and
  \<^verbatim>\<open>CountingAndSleepRetryPolicy\<close> (\<^verbatim>\<open>common/retry/counting_retry.h\<close> is not among the
  sources). The spec says: \<open>CountingRetry(N)\<close> allows up to \<open>N\<close> retries in total with
  zero sleep; \<open>CountingAndSleepRetry(N, S)\<close> allows up to \<open>N\<close> retries and sleeps \<open>S\<close> ms
  between attempts.
\<close>

datatype retry_policy = CountingRetry int | CountingAndSleepRetryPolicy int int

text \<open>Modelled from the spec: the number of retries a policy allows.\<close>

fun max_retries :: "retry_policy \<Rightarrow> nat" where
  "max_retries (CountingRetry n) = nat n"
| "max_retries (CountingAndSleepRetryPolicy n s) = nat n"

text \<open>Modelled from the spec: the sleep a policy asks for between two attempts.\<close>

fun sleep_between :: "retry_policy \<Rightarrow> int option" where
  "sleep_between (CountingRetry n) = None"
| "sleep_between (CountingAndSleepRetryPolicy n s) = Some s"

text \<open>
  Modelled from the spec: the loop of \<^verbatim>\<open>RetryUtils::Retry\<close>
  (\<^verbatim>\<open>common/retry/retry_utils.h\<close> is not among the sources). The spec says: the runner
  invokes \<open>f\<close>; if \<open>f\<close> returns normally it stops; if \<open>f\<close> throws a non-retryable exception
  it rethrows immediately; if \<open>f\<close> throws any other exception it sleeps and retries until
  the counter is exhausted, then surfaces the last exception.

  \<open>f\<close> is a closure over mutable state \<open>'s\<close>; \<open>slp\<close> says how a sleep acts on that state;
  the number is that of the retries still allowed.
\<close>

fun Retry_loop ::
  "(int \<Rightarrow> 's \<Rightarrow> 's) \<Rightarrow> ('s \<Rightarrow> (exn + 'a) \<times> 's) \<Rightarrow> int option \<Rightarrow> nat \<Rightarrow> 's
     \<Rightarrow> (exn + 'a) \<times> 's" where
  "Retry_loop slp f pause 0 s = f s"
| "Retry_loop slp f pause (Suc n) s =
     (case f s of
        (Inr v, s') \<Rightarrow> (Inr v, s')
      | (Inl e, s') \<Rightarrow>
          if e = NonRetryableException then (Inl e, s')
          else Retry_loop slp f pause n (case pause of None \<Rightarrow> s' | Some ms \<Rightarrow> slp ms s'))"

text \<open>
  Modelled from the spec: \<^verbatim>\<open>RetryUtils::Retry(name, f, policy)\<close>, the runner under its
  policy. The name only labels log lines.
\<close>

definition Retry ::
  "(int \<Rightarrow> 's \<Rightarrow> 's) \<Rightarrow> ('s \<Rightarrow> (exn + 'a) \<times> 's) \<Rightarrow> retry_policy \<Rightarrow> 's
     \<Rightarrow> (exn + 'a) \<times> 's" where
  "Retry slp f policy s = Retry_loop slp f (sleep_between policy) (max_retries policy) s"

definition sleep_ms :: "int \<Rightarrow> RDMATransporter \<Rightarrow> RDMATransporter" where
  "sleep_ms ms m = emit (sleep_for ms) m"

subsection \<open>Send and Receive\<close>

text \<open>
  What the backend does in one transfer attempt: the return code of
  \<^verbatim>\<open>utrans_query_instid\<close> and the instance id it stores, and what
  \<^verbatim>\<open>utrans_exec_transfer\<close> returns: \<open>None\<close> for a null handle, or a handle with the
  status \<^verbatim>\<open>utrans_get_req_exec_result\<close> reads from it.
\<close>

record attempt_env =
  query_ret :: utrans_ret
  query_inst_id :: uint64_t
  exec_op :: "(op_handle \<times> ures) option"

definition next_attempt :: "RDMATransporter \<Rightarrow> RDMATransporter" where
  "next_attempt m = m\<lparr>world := (world m)\<lparr>served := Suc (served (world m))\<rparr>\<rparr>"

text \<open>
  The body of one attempt: \<^verbatim>\<open>send_func\<close> and \<^verbatim>\<open>recv_func\<close> differ in the opcode and in
  the time-out only, so one definition takes both as arguments.
\<close>

definition transfer_func ::
  "user_op \<Rightarrow> int \<Rightarrow> (nat \<Rightarrow> attempt_env) \<Rightarrow> ptr \<Rightarrow> size_t \<Rightarrow> string \<Rightarrow> int \<Rightarrow> ptr
     \<Rightarrow> RDMATransporter \<Rightarrow> (exn + bool) \<times> RDMATransporter" where
  "transfer_func user_op timeout_ms bk local_addr len remote_host remote_port rbuf_addr m =
     (let b = bk (served (world m));
          m1 = emit (utrans_query_instid (ctx m) remote_host remote_port) (next_attempt m)
      in if query_ret b \<noteq> UTRANS_RET_SUCC then (Inl runtime_error, m1)
         else
           let req = \<lparr> inst_id = query_inst_id b, opcode = user_op, seg_num = 1,
                       rbuf = rbuf_addr, field5 = 0,
                       lbuf_seg = [\<lparr> addr_beg = local_addr, trz_size = ucast len \<rparr>] \<rparr>;
               conf = \<lparr> pollers = 4, chunk = 1024 * 1024, timeout = timeout_ms \<rparr>;
               m2 = emit (utrans_exec_transfer (ctx m) req conf (map_option fst (exec_op b))) m1
           in case exec_op b of
                None \<Rightarrow> (Inl runtime_error, m2)
              | Some (op_info, status) \<Rightarrow>
                  let m3 = emit (utrans_get_req_exec_result op_info) m2
                  in if status \<noteq> URES_SUCCESS
                     then (Inl runtime_error,
                           emit (utrans_unref_req_info op_info)
                             (emit (utrans_get_req_exec_result op_info) m3))
                     else (Inr True, emit (utrans_unref_req_info op_info) m3))"

definition send_func ::
  "(nat \<Rightarrow> attempt_env) \<Rightarrow> ptr \<Rightarrow> size_t \<Rightarrow> string \<Rightarrow> int \<Rightarrow> ptr
     \<Rightarrow> RDMATransporter \<Rightarrow> (exn + bool) \<times> RDMATransporter" where
  "send_func bk local_addr send_size remote_host remote_port rbuf_addr m =
     transfer_func USER_OP_WRITE (write_timeout_ms m) bk local_addr send_size
       remote_host remote_port rbuf_addr m"

definition recv_func ::
  "(nat \<Rightarrow> attempt_env) \<Rightarrow> ptr \<Rightarrow> size_t \<Rightarrow> string \<Rightarrow> int \<Rightarrow> ptr
     \<Rightarrow> RDMATransporter \<Rightarrow> (exn + bool) \<times> RDMATransporter" where
  "recv_func bk local_addr recv_size remote_host remote_port rbuf_addr m =
     transfer_func USER_OP_READ (read_timeout_ms m) bk local_addr recv_size
       remote_host remote_port rbuf_addr m"

text \<open>
  The \<^verbatim>\<open>try\<close> block around the runner: whatever exception the runner surfaces is logged
  and becomes \<^verbatim>\<open>false\<close>. The body is a parameter here; \<open>Send\<close> and \<open>Receive\<close> pass their
  own.
\<close>

definition retry_to_bool ::
  "(RDMATransporter \<Rightarrow> (exn + bool) \<times> RDMATransporter) \<Rightarrow> int \<Rightarrow> int
     \<Rightarrow> RDMATransporter \<Rightarrow> (exn + bool) \<times> RDMATransporter" where
  "retry_to_bool body retry_count retry_sleep_ms m =
     (case Retry sleep_ms body (CountingAndSleepRetryPolicy retry_count retry_sleep_ms) m of
        (Inr result, m') \<Rightarrow> (Inr result, m')
      | (Inl e, m') \<Rightarrow> (Inr False, m'))"

definition Send ::
  "(nat \<Rightarrow> attempt_env) \<Rightarrow> int \<Rightarrow> ptr \<Rightarrow> size_t \<Rightarrow> string \<Rightarrow> int \<Rightarrow> any list option
     \<Rightarrow> RDMATransporter \<Rightarrow> (exn + bool) \<times> RDMATransporter" where
  "Send bk now local_addr send_size remote_host remote_port extend_info m =
     (if ctx m = None then (Inr False, m)
      else if local_addr = 0 \<or> send_size = 0 then (Inl invalid_argument, m)
      else case GetRemoteAddrFromExtendInfo extend_info of
             Inl e \<Rightarrow> (Inl e, m)
           | Inr rbuf_addr \<Rightarrow>
               if rbuf_addr = 0 then (Inl invalid_argument, m)
               else
                 let m1 = m\<lparr>last_send_receive_time := now\<rparr>;
                     retry_count = TRANSPORT_SEND_RETRY_COUNT (options m1);
                     retry_sleep_ms = TRANSPORT_SEND_RETRY_SLEEP_MS (options m1)
                 in retry_to_bool
                      (send_func bk local_addr send_size remote_host remote_port rbuf_addr)
                      retry_count retry_sleep_ms m1)"

definition Receive ::
  "(nat \<Rightarrow> attempt_env) \<Rightarrow> int \<Rightarrow> ptr \<Rightarrow> size_t \<Rightarrow> string \<Rightarrow> int \<Rightarrow> any list option
     \<Rightarrow> RDMATransporter \<Rightarrow> (exn + bool) \<times> RDMATransporter" where
  "Receive bk now local_addr recv_size remote_host remote_port extend_info m =
     (if ctx m = None then (Inl invalid_argument, m)
      else if local_addr = 0 \<or> recv_size = 0 then (Inl invalid_argument, m)
      else case GetRemoteAddrFromExtendInfo extend_info of
             Inl e \<Rightarrow> (Inl e, m)
           | Inr rbuf_addr \<Rightarrow>
               if rbuf_addr = 0 then (Inl invalid_argument, m)
               else
                 let m1 = m\<lparr>last_send_receive_time := now\<rparr>;
                     retry_count = TRANSPORT_RECEIVE_RETRY_COUNT (options m1);
                     retry_sleep_ms = TRANSPORT_RECEIVE_RETRY_SLEEP_MS (options m1)
                 in retry_to_bool
                      (recv_func bk local_addr recv_size remote_host remote_port rbuf_addr)
                      retry_count retry_sleep_ms m1)"

subsection \<open>Start\<close>

text \<open>
  What the outside answers during \<^verbatim>\<open>Start\<close>: the host name, the device selection
  (\<^verbatim>\<open>SelectRdmaDevices\<close>, its split at commas and the NUMA node read for each
  device), the return code of \<^verbatim>\<open>utrans_setup\<close> and the pointer it stores into
  \<^verbatim>\<open>ctx_\<close>, the return code of \<^verbatim>\<open>utrans_setup_rpcsrv\<close> for the port it is asked to
  listen on, and the number \<^verbatim>\<open>dis(gen)\<close> draws. \<^verbatim>\<open>InitializeLoggingConfig\<close> and the device
  pattern only fill the local \<^verbatim>\<open>utrans_config_t\<close> that \<^verbatim>\<open>utrans_setup\<close> receives, and are
  left out.
\<close>

record start_env =
  hostname :: string
  selected_devices :: string
  split_by_comma :: "string list"
  numa_node_of :: "string \<Rightarrow> int"
  setup_ret :: utrans_ret
  setup_ctx :: utrans_ctx_ptr
  rpcsrv_ret :: "int \<Rightarrow> utrans_ret"
  random_offset :: int

definition kRdmaPortStart :: int where
  "kRdmaPortStart = 51010"

definition InitializeFromOptions :: "Options \<Rightarrow> start_env \<Rightarrow> RDMATransporter \<Rightarrow> RDMATransporter" where
  "InitializeFromOptions opts env m =
     m\<lparr> local_server_name := hostname env,
        meta_addr := TRANSFER_ENGINE_META_SERVICE_ADDRESS opts,
        read_timeout_ms := TRANSFER_ENGINE_READ_TIMEOUT_MS opts,
        write_timeout_ms := TRANSFER_ENGINE_WRITE_TIMEOUT_MS opts \<rparr>"

definition InitializeRdmaConfig :: "Options \<Rightarrow> start_env \<Rightarrow> RDMATransporter \<Rightarrow> RDMATransporter" where
  "InitializeRdmaConfig opts env m =
     (if selected_devices env \<noteq> [] then
        let nn = map (\<lambda>n. (n, numa_node_of env n)) (split_by_comma env);
            node = (case nn of [] \<Rightarrow> -1 | x # xs \<Rightarrow> snd x);
            m1 = m\<lparr> nic_nodes := nn, rdma_numa_node := node \<rparr>
        in if TRANSFER_ENGINE_ENABLE_NUMA_ALLOCATION opts then emit (numa_bind node) m1
           else m1
      else m)"

definition SetupUtransContext :: "start_env \<Rightarrow> RDMATransporter \<Rightarrow> bool \<times> RDMATransporter" where
  "SetupUtransContext env m =
     (let m1 = (emit utrans_setup m)\<lparr> ctx := setup_ctx env \<rparr>
      in if setup_ret env \<noteq> UTRANS_RET_SUCC then (False, m1)
         else (True, emit (utrans_get_instid (ctx m1)) m1))"

text \<open>
  The closure \<^verbatim>\<open>setup_func\<close> captures the object and, by reference, the locals
  \<^verbatim>\<open>attempt_count\<close> and \<^verbatim>\<open>success\<close> of \<^verbatim>\<open>SetupRpcServerWithRetry\<close>.
  \<^verbatim>\<open>kBindPortMaxRetry\<close> is declared outside the sources and is a parameter.
\<close>

record setup_frame =
  self :: RDMATransporter
  attempt_count :: int
  success :: bool

definition setup_func ::
  "int \<Rightarrow> start_env \<Rightarrow> int \<Rightarrow> setup_frame \<Rightarrow> (exn + unit) \<times> setup_frame" where
  "setup_func kBindPortMaxRetry env base_port fr =
     (let current_port = base_port + attempt_count fr
      in if attempt_count fr \<ge> kBindPortMaxRetry then (Inl runtime_error, fr)
         else
           let m1 = (self fr)\<lparr> rpc_listen_port := current_port \<rparr>;
               m2 = emit (utrans_setup_rpcsrv (ctx m1) (rpc_listen_port m1)) m1
           in if rpcsrv_ret env (rpc_listen_port m1) = UTRANS_RET_SUCC
              then (Inr (), fr\<lparr> self := m2\<lparr> local_server_port := current_port \<rparr>,
                                 success := True \<rparr>)
              else (Inl runtime_error,
                    fr\<lparr> self := m2, attempt_count := attempt_count fr + 1 \<rparr>))"

definition sleep_frame :: "int \<Rightarrow> setup_frame \<Rightarrow> setup_frame" where
  "sleep_frame ms fr = fr\<lparr> self := sleep_ms ms (self fr) \<rparr>"

definition SetupRpcServerWithRetry ::
  "int \<Rightarrow> start_env \<Rightarrow> RDMATransporter \<Rightarrow> bool \<times> RDMATransporter" where
  "SetupRpcServerWithRetry kBindPortMaxRetry env m =
     (let base_port = kRdmaPortStart + random_offset env;
          fr0 = \<lparr> self = m, attempt_count = 0, success = False \<rparr>
      in case Retry sleep_frame (setup_func kBindPortMaxRetry env base_port)
                (CountingRetry kBindPortMaxRetry) fr0 of
           (Inl e, fr) \<Rightarrow> (False, self fr)
         | (Inr u, fr) \<Rightarrow> (success fr, self fr))"

definition SetupRpcServer ::
  "Options \<Rightarrow> int \<Rightarrow> start_env \<Rightarrow> RDMATransporter \<Rightarrow> bool \<times> RDMATransporter" where
  "SetupRpcServer opts kBindPortMaxRetry env m =
     (if TRANSFER_ENGINE_SERVICE_FIXED_PORT opts then
        let m1 = m\<lparr> rpc_listen_port := TRANSFER_ENGINE_LOCAL_PORT opts \<rparr>;
            m2 = emit (utrans_setup_rpcsrv (ctx m1) (rpc_listen_port m1)) m1
        in if rpcsrv_ret env (rpc_listen_port m1) \<noteq> UTRANS_RET_SUCC then (False, m2)
           else (True, m2\<lparr> local_server_port := rpc_listen_port m2 \<rparr>)
      else
        case SetupRpcServerWithRetry kBindPortMaxRetry env m of
          (False, m') \<Rightarrow> (False, m')
        | (True, m') \<Rightarrow> (True, m'))"

definition InitializePerfMetricsThread :: "Options \<Rightarrow> RDMATransporter \<Rightarrow> RDMATransporter" where
  "InitializePerfMetricsThread opts m =
     (let m1 = m\<lparr> enable_perf_metrics := TRANSFER_ENGINE_ENABLE_PERF_METRICS opts,
                   perf_stats_interval_ms := TRANSFER_ENGINE_PERF_STATS_INTERVAL_MS opts \<rparr>
      in if enable_perf_metrics m1 \<and> ctx m1 \<noteq> None then
           let m2 = emit (store_perf_logging_thread_running True)
                      (m1\<lparr> perf_logging_thread_running := True \<rparr>)
           in emit thread_start (m2\<lparr> perf_logging_thread := True \<rparr>)
         else m1)"

definition Start ::
  "Options \<Rightarrow> int \<Rightarrow> start_env \<Rightarrow> RDMATransporter \<Rightarrow> bool \<times> RDMATransporter" where
  "Start opts kBindPortMaxRetry env m =
     (let m1 = InitializeFromOptions opts env m;
          m2 = InitializeRdmaConfig opts env m1
      in case SetupUtransContext env m2 of
           (False, m3) \<Rightarrow> (False, m3)
         | (True, m3) \<Rightarrow>
             (case SetupRpcServer opts kBindPortMaxRetry env m3 of
                (False, m4) \<Rightarrow> (False, m4)
              | (True, m4) \<Rightarrow>
                  let m5 = InitializePerfMetricsThread opts m4;
                      m6 = m5\<lparr> is_running := True \<rparr>
                  in (True, emit (sleep_for 1000) m6)))"

subsection \<open>Stop and the destructor\<close>



subsection \<open>Memory registration\<close>

text \<open>
  \<open>mr\<close> is what the backend's registration call returns: \<open>None\<close> for a null
  \<^verbatim>\<open>mem_region_registed_t*\<close>. \<open>dereg_ret\<close> is the return value of \<^verbatim>\<open>utrans_dereg_mem\<close>.
\<close>

definition RegisterMemory ::
  "nat option \<Rightarrow> ptr \<Rightarrow> size_t \<Rightarrow> bool \<Rightarrow> int \<Rightarrow> RDMATransporter
     \<Rightarrow> (exn + bool) \<times> RDMATransporter" where
  "RegisterMemory mr addr len is_vram gpu_id_or_numa_node m =
     (if ctx m = None then (Inr False, m)
      else
        let m1 = (if is_vram
                  then emit (utrans_regist_vram (ctx m) addr len gpu_id_or_numa_node) m
                  else emit (utrans_regist_ram (ctx m) addr len (rdma_numa_node m)) m)
        in if mr = None then (Inl runtime_error, m1) else (Inr True, m1))"


subsection \<open>The sampler thread\<close>

text \<open>
  One iteration of the loop of \<^verbatim>\<open>PerfMetricsLoggingThread\<close>, which the thread repeats
  while \<^verbatim>\<open>perf_logging_thread_running_\<close> is set. \<open>now\<close> is the clock reading taken after
  the sleep, in milliseconds.
\<close>

definition PerfMetricsLoggingThread_tick :: "int \<Rightarrow> RDMATransporter \<Rightarrow> RDMATransporter" where
  "PerfMetricsLoggingThread_tick now m =
     (let m1 = emit (sleep_for (perf_stats_interval_ms m)) m;
          last_activity = last_send_receive_time m1
      in if now - last_activity < 1000 then
           (if ctx m1 \<noteq> None then emit (utrans_print_perf_info (ctx m1)) m1 else m1)
         else m1)"

subsection \<open>Reading the log\<close>

definition new_events :: "RDMATransporter \<Rightarrow> RDMATransporter \<Rightarrow> event list" where
  "new_events m m' = drop (length (events m)) (events m')"

fun is_exec_transfer :: "event \<Rightarrow> bool" where
  "is_exec_transfer (utrans_exec_transfer c req conf r) = True"
| "is_exec_transfer e = False"

definition submissions :: "event list \<Rightarrow> nat" where
  "submissions es = length (filter is_exec_transfer es)"

text \<open>An attempt starts with its one call of \<^verbatim>\<open>utrans_query_instid\<close>.\<close>

fun is_attempt_or_sleep :: "event \<Rightarrow> bool" where
  "is_attempt_or_sleep (utrans_query_instid c h p) = True"
| "is_attempt_or_sleep (sleep_for ms) = True"
| "is_attempt_or_sleep e = False"

text \<open>
  The op handles held after a run of events, starting from \<open>hs\<close>: a non-null result of
  \<^verbatim>\<open>utrans_exec_transfer\<close> is held until \<^verbatim>\<open>utrans_unref_req_info\<close> releases it.
\<close>

fun hold :: "event \<Rightarrow> op_handle list \<Rightarrow> op_handle list" where
  "hold (utrans_exec_transfer c req conf (Some h)) hs = h # hs"
| "hold (utrans_unref_req_info h) hs = remove1 h hs"
| "hold e hs = hs"

fun held_after :: "op_handle list \<Rightarrow> event list \<Rightarrow> op_handle list" where
  "held_after hs [] = hs"
| "held_after hs (e # es) = held_after (hold e hs) es"

fun obtained :: "event list \<Rightarrow> op_handle list" where
  "obtained [] = []"
| "obtained (utrans_exec_transfer c req conf (Some h) # es) = h # obtained es"
| "obtained (e # es) = obtained es"

fun released :: "event list \<Rightarrow> op_handle list" where
  "released [] = []"
| "released (utrans_unref_req_info h # es) = h # released es"
| "released (e # es) = released es"

text \<open>Whether the backend lets an attempt through: the query and the transfer both succeed.\<close>

definition attempt_ok :: "attempt_env \<Rightarrow> bool" where
  "attempt_ok b =
     (query_ret b = UTRANS_RET_SUCC \<and>
      (case exec_op b of None \<Rightarrow> False | Some (h, status) \<Rightarrow> status = URES_SUCCESS))"

subsection \<open>The states an object can be in\<close>


subsection \<open>Invariants of the life cycle\<close>

text \<open>The members that \<^verbatim>\<open>Stop\<close> and the destructor act on.\<close>

definition lifecycle :: "RDMATransporter \<Rightarrow> utrans_ctx_ptr \<times> bool \<times> bool \<times> bool" where
  "lifecycle m = (ctx m, is_running m, perf_logging_thread m, perf_logging_thread_running m)"

text \<open>\<open>m'\<close> has the log of \<open>m\<close> followed by events other than \<open>e\<close>.\<close>

definition extends_without :: "event \<Rightarrow> RDMATransporter \<Rightarrow> RDMATransporter \<Rightarrow> bool" where
  "extends_without e m m' = (\<exists>es. events m' = events m @ es \<and> e \<notin> set es)"


text \<open>The releases of a backend context in a log.\<close>

fun is_clean :: "event \<Rightarrow> bool" where
  "is_clean (utrans_clean c) = True"
| "is_clean e = False"

definition cleans :: "RDMATransporter \<Rightarrow> event list" where
  "cleans m = filter is_clean (events m)"

subsection \<open>Concrete inputs\<close>

definition opts0 :: Options where
  "opts0 = \<lparr> TRANSFER_ENGINE_META_SERVICE_ADDRESS = ''127.0.0.1:8081'',
     TRANSFER_ENGINE_LOCAL_PORT = 19001,
     TRANSFER_ENGINE_SERVICE_FIXED_PORT = True,
     TRANSFER_ENGINE_READ_TIMEOUT_MS = -1,
     TRANSFER_ENGINE_WRITE_TIMEOUT_MS = 5000,
     TRANSFER_ENGINE_RDMA_NUM_POLLERS = 4,
     TRANSFER_ENGINE_MAX_RDMA_DEVICES = 1,
     TRANSFER_ENGINE_ENABLE_NUMA_ALLOCATION = False,
     TRANSFER_ENGINE_ENABLE_PERF_METRICS = True,
     TRANSFER_ENGINE_PERF_STATS_INTERVAL_MS = 500,
     TRANSPORT_SEND_RETRY_COUNT = 3,
     TRANSPORT_SEND_RETRY_SLEEP_MS = 10,
     TRANSPORT_RECEIVE_RETRY_COUNT = 3,
     TRANSPORT_RECEIVE_RETRY_SLEEP_MS = 10 \<rparr>"

definition opts_scan :: Options where
  "opts_scan = opts0\<lparr> TRANSFER_ENGINE_SERVICE_FIXED_PORT := False \<rparr>"

definition opts_noperf :: Options where
  "opts_noperf = opts0\<lparr> TRANSFER_ENGINE_ENABLE_PERF_METRICS := False \<rparr>"

fun numa0 :: "string \<Rightarrow> int" where
  "numa0 dev = 1"

fun rpcsrv_all_ok :: "int \<Rightarrow> utrans_ret" where
  "rpcsrv_all_ok port = UTRANS_RET_SUCC"

fun rpcsrv_first_taken :: "int \<Rightarrow> utrans_ret" where
  "rpcsrv_first_taken port = (if port = 51017 then UTRANS_RET_FAIL 98 else UTRANS_RET_SUCC)"

fun rpcsrv_all_taken :: "int \<Rightarrow> utrans_ret" where
  "rpcsrv_all_taken port = UTRANS_RET_FAIL 98"

definition env0 :: start_env where
  "env0 = \<lparr> hostname = ''trainer-0'', selected_devices = ''mlx5_0'',
     split_by_comma = [''mlx5_0''], numa_node_of = numa0,
     setup_ret = UTRANS_RET_SUCC, setup_ctx = Some 1,
     rpcsrv_ret = rpcsrv_all_ok, random_offset = 7 \<rparr>"

definition env_first_taken :: start_env where
  "env_first_taken = env0\<lparr> rpcsrv_ret := rpcsrv_first_taken \<rparr>"

definition env_all_taken :: start_env where
  "env_all_taken = env0\<lparr> rpcsrv_ret := rpcsrv_all_taken \<rparr>"

definition started0 :: RDMATransporter where
  "started0 = snd (Start opts0 3 env0 (New opts0))"


text \<open>A \<^verbatim>\<open>utrans_setup\<close> that fails and leaves a null pointer in \<^verbatim>\<open>ctx_\<close>.\<close>

definition env_setup_fails :: start_env where
  "env_setup_fails = env0\<lparr> setup_ret := UTRANS_RET_FAIL 12, setup_ctx := None \<rparr>"


text \<open>A started object on which a second \<^verbatim>\<open>Start\<close> failed at \<^verbatim>\<open>utrans_setup\<close>.\<close>

definition orphaned0 :: RDMATransporter where
  "orphaned0 = snd (Start opts0 3 env_setup_fails started0)"


fun bk_ok :: "nat \<Rightarrow> attempt_env" where
  "bk_ok i = \<lparr> query_ret = UTRANS_RET_SUCC, query_inst_id = 42,
              exec_op = Some (7, URES_SUCCESS) \<rparr>"

fun bk_query_fails_once :: "nat \<Rightarrow> attempt_env" where
  "bk_query_fails_once 0 =
     \<lparr> query_ret = UTRANS_RET_FAIL (-1), query_inst_id = 0, exec_op = None \<rparr>"
| "bk_query_fails_once (Suc i) =
     \<lparr> query_ret = UTRANS_RET_SUCC, query_inst_id = 42, exec_op = Some (7, URES_SUCCESS) \<rparr>"

fun bk_exec_fails_twice :: "nat \<Rightarrow> attempt_env" where
  "bk_exec_fails_twice 0 =
     \<lparr> query_ret = UTRANS_RET_SUCC, query_inst_id = 42, exec_op = None \<rparr>"
| "bk_exec_fails_twice (Suc 0) =
     \<lparr> query_ret = UTRANS_RET_SUCC, query_inst_id = 42, exec_op = Some (5, URES_FAIL 3) \<rparr>"
| "bk_exec_fails_twice (Suc (Suc i)) =
     \<lparr> query_ret = UTRANS_RET_SUCC, query_inst_id = 42, exec_op = Some (7, URES_SUCCESS) \<rparr>"

text \<open>A body that raises the non-retryable exception from its submission.\<close>

definition body_non_retryable :: "RDMATransporter \<Rightarrow> (exn + bool) \<times> RDMATransporter" where
  "body_non_retryable m =
     (Inl NonRetryableException,
      emit (utrans_exec_transfer (ctx m)
              \<lparr> inst_id = 42, opcode = USER_OP_WRITE, seg_num = 1, rbuf = 8192, field5 = 0,
                lbuf_seg = [\<lparr> addr_beg = 4096, trz_size = 64 \<rparr>] \<rparr>
              \<lparr> pollers = 4, chunk = 1024 * 1024, timeout = write_timeout_ms m \<rparr> None)
        (next_attempt m))"

text \<open>
  Between \<open>m\<close> and \<open>m'\<close> every op handle that was obtained has been released: the events
  added since \<open>m\<close> leave any set of held handles as it was.
\<close>

definition balanced_since :: "RDMATransporter \<Rightarrow> RDMATransporter \<Rightarrow> bool" where
  "balanced_since m m' =
     (\<exists>es. events m' = events m @ es \<and> (\<forall>hs. held_after hs es = hs) \<and> released es = obtained es)"

section \<open>Properties\<close>

subsection \<open>Auxiliary facts\<close>

lemma emit_fields [simp]:
  "ctx (emit e m) = ctx m"
  "options (emit e m) = options m"
  "local_server_port (emit e m) = local_server_port m"
  "write_timeout_ms (emit e m) = write_timeout_ms m"
  "read_timeout_ms (emit e m) = read_timeout_ms m"
  "is_running (emit e m) = is_running m"
  "perf_logging_thread (emit e m) = perf_logging_thread m"
  "perf_logging_thread_running (emit e m) = perf_logging_thread_running m"
  "perf_stats_interval_ms (emit e m) = perf_stats_interval_ms m"
  "last_send_receive_time (emit e m) = last_send_receive_time m"
  "rdma_numa_node (emit e m) = rdma_numa_node m"
  "served (world (emit e m)) = served (world m)"
  "events (emit e m) = events m @ [e]"
  by (simp_all add: emit_def events_def)

lemma next_attempt_fields [simp]:
  "ctx (next_attempt m) = ctx m"
  "options (next_attempt m) = options m"
  "local_server_port (next_attempt m) = local_server_port m"
  "write_timeout_ms (next_attempt m) = write_timeout_ms m"
  "read_timeout_ms (next_attempt m) = read_timeout_ms m"
  "is_running (next_attempt m) = is_running m"
  "perf_logging_thread (next_attempt m) = perf_logging_thread m"
  "perf_logging_thread_running (next_attempt m) = perf_logging_thread_running m"
  "perf_stats_interval_ms (next_attempt m) = perf_stats_interval_ms m"
  "last_send_receive_time (next_attempt m) = last_send_receive_time m"
  "rdma_numa_node (next_attempt m) = rdma_numa_node m"
  "served (world (next_attempt m)) = Suc (served (world m))"
  "events (next_attempt m) = events m"
  by (simp_all add: next_attempt_def events_def)

lemma new_events_append [simp]: "events m' = events m @ es \<Longrightarrow> new_events m m' = es"
  by (simp add: new_events_def)

lemma new_events_self [simp]: "new_events m m = []"
  by (simp add: new_events_def)

text \<open>What one attempt does, by the backend's answer.\<close>

lemma transfer_func_result:
  "fst (transfer_func user_op tmo bk la len h p rb m)
     = (if attempt_ok (bk (served (world m))) then Inr True else Inl runtime_error)"
  by (auto simp add: transfer_func_def attempt_ok_def Let_def split: option.splits prod.splits)

lemma transfer_func_fields:
  "ctx (snd (transfer_func user_op tmo bk la len h p rb m)) = ctx m"
  "served (world (snd (transfer_func user_op tmo bk la len h p rb m))) = Suc (served (world m))"
  by (auto simp add: transfer_func_def Let_def split: option.splits prod.splits)

lemma transfer_func_events:
  "\<exists>es. events (snd (transfer_func user_op tmo bk la len h p rb m)) = events m @ es
     \<and> filter is_attempt_or_sleep es = [utrans_query_instid (ctx m) h p]
     \<and> submissions es = (if query_ret (bk (served (world m))) = UTRANS_RET_SUCC then 1 else 0)
     \<and> held_after hs es = hs"
  by (auto simp add: transfer_func_def Let_def submissions_def split: option.splits prod.splits)


lemma sleep_ms_fields [simp]:
  "ctx (sleep_ms ms m) = ctx m"
  "served (world (sleep_ms ms m)) = served (world m)"
  "events (sleep_ms ms m) = events m @ [sleep_for ms]"
  by (simp_all add: sleep_ms_def)

lemma Retry_loop_invariant:
  assumes "\<And>s. P s \<Longrightarrow> P (snd (f s))" and "\<And>ms s. P s \<Longrightarrow> P (slp ms s)" and "P s"
  shows "P (snd (Retry_loop slp f pause n s))"
  using assms(3)
proof (induction n arbitrary: s)
  case 0
  then show ?case by (simp add: assms(1))
next
  case (Suc n)
  obtain r s1 where fs: "f s = (r, s1)" by (cases "f s")
  with Suc.prems assms(1) [of s] have P1: "P s1" by simp
  show ?case
  proof (cases r)
    case (Inr v)
    with fs P1 show ?thesis by simp
  next
    case (Inl e)
    show ?thesis
    proof (cases "e = NonRetryableException")
      case True
      with fs Inl P1 show ?thesis by simp
    next
      case False
      have "P (case pause of None \<Rightarrow> s1 | Some ms \<Rightarrow> slp ms s1)"
        using P1 assms(2) by (cases pause) simp_all
      then have "P (snd (Retry_loop slp f pause n (case pause of None \<Rightarrow> s1 | Some ms \<Rightarrow> slp ms s1)))"
        by (rule Suc.IH)
      with fs Inl False show ?thesis by simp
    qed
  qed
qed

lemma length_filter_upt_shift:
  "length (filter P [0..<Suc k]) = (if P 0 then 1 else 0) + length (filter (\<lambda>i. P (Suc i)) [0..<k])"
proof -
  have "[0..<Suc k] = 0 # map Suc [0..<k]"
    by (simp add: upt_conv_Cons map_Suc_upt del: upt_Suc)
  then show ?thesis
    by (simp add: filter_map o_def del: upt_Suc)
qed

lemma Retry_loop_first_success:
  assumes "fst (f s) = Inr v"
  shows "Retry_loop slp f pause n s = (Inr v, snd (f s))"
  using assms by (cases n; cases "f s") simp_all

lemma Retry_loop_transfer:
  assumes "k \<le> n"
    and "\<forall>i<k. \<not> attempt_ok (bk (served (world m) + i))"
    and "attempt_ok (bk (served (world m) + k))"
  shows "\<exists>m' es. Retry_loop sleep_ms (\<lambda>x. transfer_func user_op (tmo x) bk la len h p rb x) (Some S) n m
                   = (Inr True, m')
        \<and> events m' = events m @ es
        \<and> filter is_attempt_or_sleep es
            = utrans_query_instid (ctx m) h p
              # concat (replicate k [sleep_for S, utrans_query_instid (ctx m) h p])
        \<and> submissions es
            = Suc (length (filter (\<lambda>i. query_ret (bk (served (world m) + i)) = UTRANS_RET_SUCC) [0..<k]))"
  using assms
proof (induction k arbitrary: n m)
  case 0
  let ?body = "\<lambda>x. transfer_func user_op (tmo x) bk la len h p rb x"
  from 0 have ok: "attempt_ok (bk (served (world m)))" by simp
  then have r: "fst (?body m) = Inr True" by (simp add: transfer_func_result)
  obtain es where es: "events (snd (?body m)) = events m @ es"
      "filter is_attempt_or_sleep es = [utrans_query_instid (ctx m) h p]"
      "submissions es = (if query_ret (bk (served (world m))) = UTRANS_RET_SUCC then 1 else 0)"
    using transfer_func_events [of user_op "tmo m" bk la len h p rb m] by blast
  from ok have "query_ret (bk (served (world m))) = UTRANS_RET_SUCC"
    by (simp add: attempt_ok_def)
  with es r show ?case
    by (simp add: Retry_loop_first_success)
next
  case (Suc k)
  let ?body = "\<lambda>x. transfer_func user_op (tmo x) bk la len h p rb x"
  let ?q = "utrans_query_instid (ctx m) h p"
  from Suc.prems obtain n' where n: "n = Suc n'" "k \<le> n'" by (cases n) simp_all
  from Suc.prems have "\<not> attempt_ok (bk (served (world m)))" by force
  then have r: "fst (?body m) = Inl runtime_error" by (simp add: transfer_func_result)
  obtain es1 where es1: "events (snd (?body m)) = events m @ es1"
      "filter is_attempt_or_sleep es1 = [?q]"
      "submissions es1 = (if query_ret (bk (served (world m))) = UTRANS_RET_SUCC then 1 else 0)"
    using transfer_func_events [of user_op "tmo m" bk la len h p rb m] by blast
  define m2 where "m2 = sleep_ms S (snd (?body m))"
  have m2: "ctx m2 = ctx m" "served (world m2) = Suc (served (world m))"
      "events m2 = events m @ es1 @ [sleep_for S]"
    by (simp_all add: m2_def transfer_func_fields es1)
  have step: "Retry_loop sleep_ms ?body (Some S) n m = Retry_loop sleep_ms ?body (Some S) n' m2"
    using r n by (cases "?body m") (simp add: m2_def)
  have fails: "\<forall>i<k. \<not> attempt_ok (bk (served (world m2) + i))"
    using Suc.prems(2) m2(2) by (metis Suc_less_eq add_Suc_shift)
  have succ: "attempt_ok (bk (served (world m2) + k))"
    using Suc.prems(3) m2(2) by simp
  from Suc.IH [OF n(2) fails succ] obtain m' es2 where
      run: "Retry_loop sleep_ms ?body (Some S) n' m2 = (Inr True, m')"
      and ev: "events m' = events m2 @ es2"
      and marks: "filter is_attempt_or_sleep es2 = ?q # concat (replicate k [sleep_for S, ?q])"
      and subs: "submissions es2
         = Suc (length (filter (\<lambda>i. query_ret (bk (Suc (served (world m)) + i)) = UTRANS_RET_SUCC) [0..<k]))"
    using m2 by auto
  have "events m' = events m @ (es1 @ sleep_for S # es2)"
    using ev m2 by simp
  moreover have "filter is_attempt_or_sleep (es1 @ sleep_for S # es2)
      = ?q # concat (replicate (Suc k) [sleep_for S, ?q])"
    using es1(2) marks by simp
  moreover have "submissions (es1 @ sleep_for S # es2)
      = Suc (length (filter (\<lambda>i. query_ret (bk (served (world m) + i)) = UTRANS_RET_SUCC) [0..<Suc k]))"
  proof -
    have "submissions (es1 @ sleep_for S # es2) = submissions es1 + submissions es2"
      by (simp add: submissions_def)
    also have "\<dots> = (if query_ret (bk (served (world m))) = UTRANS_RET_SUCC then 1 else 0)
        + Suc (length (filter (\<lambda>i. query_ret (bk (Suc (served (world m)) + i)) = UTRANS_RET_SUCC) [0..<k]))"
      using es1(3) subs by simp
    also have "\<dots> = Suc (length (filter (\<lambda>i. query_ret (bk (served (world m) + i)) = UTRANS_RET_SUCC) [0..<Suc k]))"
      by (simp add: length_filter_upt_shift [of "\<lambda>i. query_ret (bk (served (world m) + i)) = UTRANS_RET_SUCC" k] del: upt_Suc)
    finally show ?thesis .
  qed
  ultimately show ?case
    unfolding step run
    by (intro exI [of _ m'] exI [of _ "es1 @ sleep_for S # es2"] conjI) (rule refl, assumption+)
qed

lemma started0_fields:
  "ctx started0 = Some 1" "is_running started0" "served (world started0) = 0"
  "options started0 = opts0" "write_timeout_ms started0 = 5000"
  "perf_logging_thread started0"
  by (simp_all add: started0_def Start_def New_def opts0_def env0_def
      InitializeFromOptions_def InitializeRdmaConfig_def SetupUtransContext_def
      SetupRpcServer_def InitializePerfMetricsThread_def emit_def Let_def)

subsection \<open>Argument checks of Send and Receive\<close>

text \<open>
  Claim C3. When the backend context is not initialised (no successful \<^verbatim>\<open>Start\<close> yet),
  \<^verbatim>\<open>Send\<close> returns false without raising and without touching the backend (the object,
  its event log included, is unchanged), whereas \<^verbatim>\<open>Receive\<close> raises
  \<^verbatim>\<open>std::invalid_argument\<close>, also without touching the backend: the two operations differ
  on this precondition.
\<close>

theorem Send_Receive_uninitialized:
  assumes "ctx m = None"
  shows "Send bk now local_addr len remote_host remote_port extend_info m = (Inr False, m)
       \<and> Receive bk now local_addr len remote_host remote_port extend_info m
           = (Inl invalid_argument, m)"
  using assms by (simp add: Send_def Receive_def)

theorem Send_Receive_uninitialized_witness:
  "ctx (New opts0) = None
   \<and> Send bk_ok 1000 4096 64 ''peer'' 19001 (Some [any_const_void_ptr 8192]) (New opts0)
       = (Inr False, New opts0)
   \<and> Receive bk_ok 1000 4096 64 ''peer'' 19001 (Some [any_const_void_ptr 8192]) (New opts0)
       = (Inl invalid_argument, New opts0)"
  using Send_Receive_uninitialized
    [of "New opts0" bk_ok 1000 4096 64 "''peer''" 19001 "Some [any_const_void_ptr 8192]"]
  by (simp add: New_def)

text \<open>
  Claim C1 says that \<^verbatim>\<open>Send\<close> and \<^verbatim>\<open>Receive\<close> return false for a null buffer or a zero
  length. On a started object \<^verbatim>\<open>Send(nullptr, 0, \<dots>)\<close> does not return: it raises
  \<^verbatim>\<open>std::invalid_argument\<close>, thrown before the \<^verbatim>\<open>try\<close> block that turns exceptions into
  \<^verbatim>\<open>false\<close>.
\<close>

theorem Send_null_buffer_raises:
  "fst (Send bk_ok 1000 0 0 ''peer'' 19001 (Some [any_const_void_ptr 8192]) started0)
     = Inl invalid_argument"
  by (simp add: Send_def started0_fields)

text \<open>
  Claim C1, amended. For a null \<open>local_addr\<close> or a zero length, \<^verbatim>\<open>Send\<close> and \<^verbatim>\<open>Receive\<close>
  make no backend call and leave the object as it is; \<^verbatim>\<open>Receive\<close> raises
  \<^verbatim>\<open>std::invalid_argument\<close>, and so does \<^verbatim>\<open>Send\<close> unless the context is not initialised,
  where \<^verbatim>\<open>Send\<close> returns false. Neither ever returns true.
\<close>

theorem Send_Receive_bad_buffer:
  assumes "local_addr = 0 \<or> len = 0"
  shows "Send bk now local_addr len remote_host remote_port extend_info m
           = (if ctx m = None then Inr False else Inl invalid_argument, m)
       \<and> Receive bk now local_addr len remote_host remote_port extend_info m
           = (Inl invalid_argument, m)"
  using assms by (auto simp add: Send_def Receive_def)

theorem Send_Receive_bad_buffer_witness:
  "((4096 :: ptr) = 0 \<or> (0 :: size_t) = 0)
   \<and> Send bk_ok 1000 4096 0 ''peer'' 19001 (Some [any_const_void_ptr 8192]) started0
       = (Inl invalid_argument, started0)
   \<and> Receive bk_ok 1000 4096 0 ''peer'' 19001 (Some [any_const_void_ptr 8192]) started0
       = (Inl invalid_argument, started0)"
  using Send_Receive_bad_buffer
    [of 4096 0 bk_ok 1000 "''peer''" 19001 "Some [any_const_void_ptr 8192]" started0]
  by (simp add: started0_fields)

lemma retry_to_bool_non_retryable:
  assumes "fst (body m) = Inl NonRetryableException"
  shows "retry_to_bool body retry_count retry_sleep m = (Inr False, snd (body m))"
  using assms
  by (cases "nat retry_count"; cases "body m") (simp_all add: retry_to_bool_def Retry_def)

lemma Send_retry_run:
  assumes valid: "ctx m \<noteq> None" "local_addr \<noteq> 0" "len \<noteq> 0"
      "GetRemoteAddrFromExtendInfo extend_info = Inr rb" "rb \<noteq> 0"
    and k: "int k < TRANSPORT_SEND_RETRY_COUNT (options m)"
    and fails: "\<forall>i<k. \<not> attempt_ok (bk (served (world m) + i))"
    and succ: "attempt_ok (bk (served (world m) + k))"
  shows "\<exists>m' es. Send bk now local_addr len remote_host remote_port extend_info m = (Inr True, m')
        \<and> events m' = events m @ es
        \<and> filter is_attempt_or_sleep es
            = utrans_query_instid (ctx m) remote_host remote_port
              # concat (replicate k [sleep_for (TRANSPORT_SEND_RETRY_SLEEP_MS (options m)),
                                    utrans_query_instid (ctx m) remote_host remote_port])
        \<and> submissions es
            = Suc (length (filter (\<lambda>i. query_ret (bk (served (world m) + i)) = UTRANS_RET_SUCC) [0..<k]))"
proof -
  let ?m1 = "m\<lparr>last_send_receive_time := now\<rparr>"
  let ?n = "nat (TRANSPORT_SEND_RETRY_COUNT (options m))"
  let ?S = "TRANSPORT_SEND_RETRY_SLEEP_MS (options m)"
  let ?body = "\<lambda>x. transfer_func USER_OP_WRITE (write_timeout_ms x) bk local_addr len
                      remote_host remote_port rb x"
  have m1: "served (world ?m1) = served (world m)" "ctx ?m1 = ctx m" "events ?m1 = events m"
    by (simp_all add: events_def)
  from k have kn: "k \<le> ?n" by simp
  from Retry_loop_transfer [of k ?n bk ?m1 USER_OP_WRITE write_timeout_ms local_addr len
      remote_host remote_port rb ?S] kn fails succ
  obtain m' es where run: "Retry_loop sleep_ms ?body (Some ?S) ?n ?m1 = (Inr True, m')"
    and rest: "events m' = events m @ es"
      "filter is_attempt_or_sleep es
            = utrans_query_instid (ctx m) remote_host remote_port
              # concat (replicate k [sleep_for ?S,
                                    utrans_query_instid (ctx m) remote_host remote_port])"
      "submissions es
            = Suc (length (filter (\<lambda>i. query_ret (bk (served (world m) + i)) = UTRANS_RET_SUCC) [0..<k]))"
    unfolding m1 by blast
  have body: "send_func bk local_addr len remote_host remote_port rb = ?body"
    by (rule ext) (simp add: send_func_def)
  have "Send bk now local_addr len remote_host remote_port extend_info m = (Inr True, m')"
    using valid run by (simp add: Send_def body retry_to_bool_def Retry_def Let_def)
  with rest show ?thesis by blast
qed


subsection \<open>Retries of Send\<close>

text \<open>
  Claim C2 says that \<^verbatim>\<open>Send\<close> makes \<open>k + 1\<close> backend submissions when its per-attempt
  body fails \<open>k\<close> times with a retryable error and then succeeds. Here the body fails once
  (\<open>k = 1\<close>), at \<^verbatim>\<open>utrans_query_instid\<close>, which is before the submission: \<^verbatim>\<open>Send\<close>
  returns true after two attempts and one \<^verbatim>\<open>utrans_exec_transfer\<close>, not two.
\<close>

theorem Send_query_failure_one_submission:
  "(1 :: int) < TRANSPORT_SEND_RETRY_COUNT (options started0)
   \<and> fst (send_func bk_query_fails_once 4096 64 ''peer'' 19001 8192 started0) = Inl runtime_error
   \<and> fst (Send bk_query_fails_once 1000 4096 64 ''peer'' 19001
             (Some [any_const_void_ptr 8192]) started0) = Inr True
   \<and> new_events started0
        (snd (Send bk_query_fails_once 1000 4096 64 ''peer'' 19001
                (Some [any_const_void_ptr 8192]) started0))
       = [utrans_query_instid (Some 1) ''peer'' 19001,
          sleep_for 10,
          utrans_query_instid (Some 1) ''peer'' 19001,
          utrans_exec_transfer (Some 1)
            \<lparr>inst_id = 42, opcode = USER_OP_WRITE, seg_num = 1, rbuf = 8192, field5 = 0,
              lbuf_seg = [\<lparr>addr_beg = 4096, trz_size = 64\<rparr>]\<rparr>
            \<lparr>pollers = 4, chunk = 1048576, timeout = 5000\<rparr> (Some 7),
          utrans_get_req_exec_result 7,
          utrans_unref_req_info 7]
   \<and> submissions (new_events started0
        (snd (Send bk_query_fails_once 1000 4096 64 ''peer'' 19001
                (Some [any_const_void_ptr 8192]) started0))) = 1"
  by code_simp

text \<open>
  Claim C2, amended. If the backend fails the first \<open>k\<close> attempts of a valid \<^verbatim>\<open>Send\<close>,
  \<open>k < retry_count\<close>, and lets the next one through, \<^verbatim>\<open>Send\<close> returns true after exactly
  \<open>k + 1\<close> attempts (each starts with its one instance-id query) with one sleep of
  \<open>retry_sleep_ms\<close> between consecutive attempts; the number of \<^verbatim>\<open>utrans_exec_transfer\<close>
  submissions is one more than the number of failed attempts whose instance-id query
  succeeded, so \<open>k + 1\<close> when every failure is a failure of the transfer. The retry block
  of \<^verbatim>\<open>Send\<close> turns a non-retryable exception of the first attempt into \<^verbatim>\<open>false\<close> after
  that one run of the body, with no sleep and no retry; the body \<^verbatim>\<open>Send\<close> passes raises
  \<^verbatim>\<open>std::runtime_error\<close> only, never the non-retryable exception.
\<close>

theorem Send_retry_then_success:
  "(ctx m \<noteq> None \<and> local_addr \<noteq> 0 \<and> len \<noteq> 0
      \<and> GetRemoteAddrFromExtendInfo extend_info = Inr rb \<and> rb \<noteq> 0
      \<and> int k < TRANSPORT_SEND_RETRY_COUNT (options m)
      \<and> (\<forall>i<k. \<not> attempt_ok (bk (served (world m) + i)))
      \<and> attempt_ok (bk (served (world m) + k))
    \<longrightarrow> fst (Send bk now local_addr len remote_host remote_port extend_info m) = Inr True
      \<and> filter is_attempt_or_sleep
           (new_events m (snd (Send bk now local_addr len remote_host remote_port extend_info m)))
          = utrans_query_instid (ctx m) remote_host remote_port
            # concat (replicate k [sleep_for (TRANSPORT_SEND_RETRY_SLEEP_MS (options m)),
                                  utrans_query_instid (ctx m) remote_host remote_port])
      \<and> submissions
           (new_events m (snd (Send bk now local_addr len remote_host remote_port extend_info m)))
          = Suc (length (filter (\<lambda>i. query_ret (bk (served (world m) + i)) = UTRANS_RET_SUCC)
                           [0..<k]))
      \<and> ((\<forall>i<k. query_ret (bk (served (world m) + i)) = UTRANS_RET_SUCC)
           \<longrightarrow> submissions
                 (new_events m
                    (snd (Send bk now local_addr len remote_host remote_port extend_info m)))
               = k + 1))
   \<and> (fst (body m) = Inl NonRetryableException
        \<longrightarrow> retry_to_bool body retry_count retry_sleep_ms m = (Inr False, snd (body m)))
   \<and> fst (send_func bk local_addr len remote_host remote_port rb m) \<noteq> Inl NonRetryableException"
proof (intro conjI impI)
  show "fst (send_func bk local_addr len remote_host remote_port rb m) \<noteq> Inl NonRetryableException"
    by (simp add: send_func_def transfer_func_result)
next
  assume "fst (body m) = Inl NonRetryableException"
  then show "retry_to_bool body retry_count retry_sleep_ms m = (Inr False, snd (body m))"
    by (rule retry_to_bool_non_retryable)
next
  assume h: "ctx m \<noteq> None \<and> local_addr \<noteq> 0 \<and> len \<noteq> 0
      \<and> GetRemoteAddrFromExtendInfo extend_info = Inr rb \<and> rb \<noteq> 0
      \<and> int k < TRANSPORT_SEND_RETRY_COUNT (options m)
      \<and> (\<forall>i<k. \<not> attempt_ok (bk (served (world m) + i)))
      \<and> attempt_ok (bk (served (world m) + k))"
  let ?r = "Send bk now local_addr len remote_host remote_port extend_info m"
  from h Send_retry_run [of m local_addr len extend_info rb k bk now remote_host remote_port]
  obtain m' es where run: "?r = (Inr True, m')" and ev: "events m' = events m @ es"
    and marks: "filter is_attempt_or_sleep es
            = utrans_query_instid (ctx m) remote_host remote_port
              # concat (replicate k [sleep_for (TRANSPORT_SEND_RETRY_SLEEP_MS (options m)),
                                    utrans_query_instid (ctx m) remote_host remote_port])"
    and subs: "submissions es
            = Suc (length (filter (\<lambda>i. query_ret (bk (served (world m) + i)) = UTRANS_RET_SUCC) [0..<k]))"
    by blast
  have ne: "new_events m (snd ?r) = es"
    using run ev by simp
  show "fst ?r = Inr True" using run by simp
  show "filter is_attempt_or_sleep (new_events m (snd ?r))
          = utrans_query_instid (ctx m) remote_host remote_port
            # concat (replicate k [sleep_for (TRANSPORT_SEND_RETRY_SLEEP_MS (options m)),
                                  utrans_query_instid (ctx m) remote_host remote_port])"
    using marks ne by simp
  show "submissions (new_events m (snd ?r))
          = Suc (length (filter (\<lambda>i. query_ret (bk (served (world m) + i)) = UTRANS_RET_SUCC)
                           [0..<k]))"
    using subs ne by simp
  assume "\<forall>i<k. query_ret (bk (served (world m) + i)) = UTRANS_RET_SUCC"
  then have "filter (\<lambda>i. query_ret (bk (served (world m) + i)) = UTRANS_RET_SUCC) [0..<k] = [0..<k]"
    by (simp add: filter_id_conv)
  with subs ne show "submissions (new_events m (snd ?r)) = k + 1" by simp
qed

theorem Send_retry_then_success_witness:
  "ctx started0 \<noteq> None \<and> (4096 :: ptr) \<noteq> 0 \<and> (64 :: size_t) \<noteq> 0
   \<and> GetRemoteAddrFromExtendInfo (Some [any_const_void_ptr 8192]) = Inr 8192
   \<and> (2 :: int) < TRANSPORT_SEND_RETRY_COUNT (options started0)
   \<and> \<not> attempt_ok (bk_exec_fails_twice 0) \<and> \<not> attempt_ok (bk_exec_fails_twice 1)
   \<and> attempt_ok (bk_exec_fails_twice 2)
   \<and> fst (Send bk_exec_fails_twice 1000 4096 64 ''peer'' 19001
             (Some [any_const_void_ptr 8192]) started0) = Inr True
   \<and> filter is_attempt_or_sleep
        (new_events started0
           (snd (Send bk_exec_fails_twice 1000 4096 64 ''peer'' 19001
                   (Some [any_const_void_ptr 8192]) started0)))
       = [utrans_query_instid (Some 1) ''peer'' 19001, sleep_for 10,
          utrans_query_instid (Some 1) ''peer'' 19001, sleep_for 10,
          utrans_query_instid (Some 1) ''peer'' 19001]
   \<and> submissions
        (new_events started0
           (snd (Send bk_exec_fails_twice 1000 4096 64 ''peer'' 19001
                   (Some [any_const_void_ptr 8192]) started0))) = 3
   \<and> fst (body_non_retryable started0) = Inl NonRetryableException
   \<and> retry_to_bool body_non_retryable 3 10 started0
       = (Inr False, snd (body_non_retryable started0))"
proof -
  have f0: "\<not> attempt_ok (bk_exec_fails_twice 0)" "\<not> attempt_ok (bk_exec_fails_twice 1)"
    and s2: "attempt_ok (bk_exec_fails_twice 2)"
    by (simp_all add: attempt_ok_def numeral_2_eq_2)
  have q: "query_ret (bk_exec_fails_twice 0) = UTRANS_RET_SUCC"
      "query_ret (bk_exec_fails_twice 1) = UTRANS_RET_SUCC"
    by simp_all
  have all_f: "\<forall>i<2. \<not> attempt_ok (bk_exec_fails_twice (served (world started0) + i))"
    using f0 by (simp add: started0_fields less_2_cases_iff)
  have all_q: "\<forall>i<2. query_ret (bk_exec_fails_twice (served (world started0) + i)) = UTRANS_RET_SUCC"
    using q by (simp add: started0_fields less_2_cases_iff)
  have nr: "fst (body_non_retryable started0) = Inl NonRetryableException"
    by (simp add: body_non_retryable_def)
  have rep: "\<And>a b :: event. concat (replicate 2 [a, b]) = [a, b, a, b]"
    by (simp add: numeral_2_eq_2)
  note inst = Send_retry_then_success [of started0 4096 64 "Some [any_const_void_ptr 8192]" 8192 2
      bk_exec_fails_twice 1000 "''peer''" 19001 body_non_retryable 3 10]
  have v: "ctx started0 \<noteq> None" "(4096 :: ptr) \<noteq> 0" "(64 :: size_t) \<noteq> 0"
      "GetRemoteAddrFromExtendInfo (Some [any_const_void_ptr 8192]) = Inr 8192"
      "(8192 :: ptr) \<noteq> 0"
      "(2 :: int) < TRANSPORT_SEND_RETRY_COUNT (options started0)"
    by (simp_all add: started0_fields opts0_def)
  have s2': "attempt_ok (bk_exec_fails_twice (served (world started0) + 2))"
    using s2 by (simp only: started0_fields add_0)
  have hyp: "ctx started0 \<noteq> None \<and> (4096 :: ptr) \<noteq> 0 \<and> (64 :: size_t) \<noteq> 0
      \<and> GetRemoteAddrFromExtendInfo (Some [any_const_void_ptr 8192]) = Inr 8192
      \<and> (8192 :: ptr) \<noteq> 0
      \<and> int 2 < TRANSPORT_SEND_RETRY_COUNT (options started0)
      \<and> (\<forall>i<2. \<not> attempt_ok (bk_exec_fails_twice (served (world started0) + i)))
      \<and> attempt_ok (bk_exec_fails_twice (served (world started0) + 2))"
    using v all_f s2' by (intro conjI) simp_all
  note a = inst [THEN conjunct1, THEN mp, OF hyp]
  have c1: "fst (Send bk_exec_fails_twice 1000 4096 64 ''peer'' 19001
             (Some [any_const_void_ptr 8192]) started0) = Inr True"
    using a by simp
  have c2: "filter is_attempt_or_sleep
        (new_events started0
           (snd (Send bk_exec_fails_twice 1000 4096 64 ''peer'' 19001
                   (Some [any_const_void_ptr 8192]) started0)))
       = [utrans_query_instid (Some 1) ''peer'' 19001, sleep_for 10,
          utrans_query_instid (Some 1) ''peer'' 19001, sleep_for 10,
          utrans_query_instid (Some 1) ''peer'' 19001]"
    using a [THEN conjunct2, THEN conjunct1] by (simp add: started0_fields opts0_def rep)
  have c3: "submissions
        (new_events started0
           (snd (Send bk_exec_fails_twice 1000 4096 64 ''peer'' 19001
                   (Some [any_const_void_ptr 8192]) started0))) = 3"
    using a [THEN conjunct2, THEN conjunct2, THEN conjunct2, THEN mp, OF all_q] by simp
  have c4: "retry_to_bool body_non_retryable 3 10 started0
       = (Inr False, snd (body_non_retryable started0))"
    using inst [THEN conjunct2, THEN conjunct1, THEN mp, OF nr] .
  show ?thesis
    using v f0 s2 c1 c2 c3 nr c4 by (intro conjI)
qed

subsection \<open>Op handles\<close>

lemma held_after_append: "held_after hs (es1 @ es2) = held_after (held_after hs es1) es2"
  by (induction es1 arbitrary: hs) simp_all

lemma obtained_append: "obtained (es1 @ es2) = obtained es1 @ obtained es2"
  by (induction es1 rule: obtained.induct) simp_all

lemma released_append: "released (es1 @ es2) = released es1 @ released es2"
  by (induction es1 rule: released.induct) simp_all

lemma transfer_func_handles:
  "\<exists>es. events (snd (transfer_func user_op tmo bk la len h p rb m)) = events m @ es
     \<and> (\<forall>hs. held_after hs es = hs) \<and> released es = obtained es"
  by (auto simp add: transfer_func_def Let_def split: option.splits prod.splits)

lemma balanced_since_refl: "events m' = events m \<Longrightarrow> balanced_since m m'"
  by (simp add: balanced_since_def)

lemma balanced_since_transfer:
  assumes "balanced_since m x"
  shows "balanced_since m (snd (transfer_func user_op tmo bk la len h p rb x))"
proof -
  from assms obtain es where es: "events x = events m @ es" "\<forall>hs. held_after hs es = hs"
      "released es = obtained es"
    by (auto simp add: balanced_since_def)
  from transfer_func_handles [of user_op tmo bk la len h p rb x]
  obtain es' where es': "events (snd (transfer_func user_op tmo bk la len h p rb x)) = events x @ es'"
      "\<forall>hs. held_after hs es' = hs" "released es' = obtained es'"
    by blast
  have "events (snd (transfer_func user_op tmo bk la len h p rb x)) = events m @ (es @ es')"
    using es es' by simp
  moreover have "\<forall>hs. held_after hs (es @ es') = hs"
    using es es' by (simp add: held_after_append)
  moreover have "released (es @ es') = obtained (es @ es')"
    using es es' by (simp add: released_append obtained_append)
  ultimately show ?thesis
    unfolding balanced_since_def by blast
qed

lemma balanced_since_sleep:
  assumes "balanced_since m x"
  shows "balanced_since m (sleep_ms ms x)"
proof -
  from assms obtain es where es: "events x = events m @ es" "\<forall>hs. held_after hs es = hs"
      "released es = obtained es"
    by (auto simp add: balanced_since_def)
  have "events (sleep_ms ms x) = events m @ (es @ [sleep_for ms])"
    using es by simp
  moreover have "\<forall>hs. held_after hs (es @ [sleep_for ms]) = hs"
    using es by (simp add: held_after_append)
  moreover have "released (es @ [sleep_for ms]) = obtained (es @ [sleep_for ms])"
    using es by (simp add: released_append obtained_append)
  ultimately show ?thesis
    unfolding balanced_since_def by blast
qed

lemma balanced_since_retry:
  assumes "balanced_since m x"
  shows "balanced_since m
    (snd (retry_to_bool (\<lambda>y. transfer_func user_op (tmo y) bk la len h p rb y) rc rs x))"
proof -
  let ?body = "\<lambda>y. transfer_func user_op (tmo y) bk la len h p rb y"
  have "balanced_since m (snd (Retry_loop sleep_ms ?body (Some rs) (nat rc) x))"
    by (rule Retry_loop_invariant [where P = "balanced_since m"])
       (simp_all add: balanced_since_transfer balanced_since_sleep assms)
  then show ?thesis
    by (auto simp add: retry_to_bool_def Retry_def split: prod.splits sum.splits)
qed

lemma balanced_since_Send:
  "balanced_since m (snd (Send bk now la len h p ei m))"
proof -
  have body: "send_func bk la len h p rb
      = (\<lambda>y. transfer_func USER_OP_WRITE (write_timeout_ms y) bk la len h p rb y)" for rb
    by (rule ext) (simp add: send_func_def)
  have "balanced_since m (m\<lparr>last_send_receive_time := now\<rparr>)"
    by (rule balanced_since_refl) (simp add: events_def)
  then show ?thesis
    by (auto simp add: Send_def Let_def body balanced_since_refl intro: balanced_since_retry
        split: sum.splits)
qed

lemma balanced_since_Receive:
  "balanced_since m (snd (Receive bk now la len h p ei m))"
proof -
  have body: "recv_func bk la len h p rb
      = (\<lambda>y. transfer_func USER_OP_READ (read_timeout_ms y) bk la len h p rb y)" for rb
    by (rule ext) (simp add: recv_func_def)
  have "balanced_since m (m\<lparr>last_send_receive_time := now\<rparr>)"
    by (rule balanced_since_refl) (simp add: events_def)
  then show ?thesis
    by (auto simp add: Receive_def Let_def body balanced_since_refl intro: balanced_since_retry
        split: sum.splits)
qed

lemma balanced_since_new_events:
  assumes "balanced_since m m'"
  shows "held_after [] (new_events m m') = [] \<and> released (new_events m m') = obtained (new_events m m')"
  using assms by (auto simp add: balanced_since_def)

text \<open>
  Claim C9. In every attempt of \<^verbatim>\<open>Send\<close> and of \<^verbatim>\<open>Receive\<close>, whatever the backend
  answers, no op handle is held when the attempt ends, by returning true or by raising:
  the handles released by \<^verbatim>\<open>utrans_unref_req_info\<close> are exactly the non-null handles
  \<^verbatim>\<open>utrans_exec_transfer\<close> returned, each once.
\<close>

theorem op_handles_released:
  "held_after [] (new_events m (snd (send_func bk local_addr len remote_host remote_port rb m))) = []
   \<and> released (new_events m (snd (send_func bk local_addr len remote_host remote_port rb m)))
       = obtained (new_events m (snd (send_func bk local_addr len remote_host remote_port rb m)))
   \<and> held_after [] (new_events m (snd (recv_func bk local_addr len remote_host remote_port rb m))) = []
   \<and> released (new_events m (snd (recv_func bk local_addr len remote_host remote_port rb m)))
       = obtained (new_events m (snd (recv_func bk local_addr len remote_host remote_port rb m)))"
proof -
  have m: "balanced_since m m" by (simp add: balanced_since_refl)
  have s: "balanced_since m (snd (send_func bk local_addr len remote_host remote_port rb m))"
    unfolding send_func_def by (rule balanced_since_transfer [OF m])
  have r: "balanced_since m (snd (recv_func bk local_addr len remote_host remote_port rb m))"
    unfolding recv_func_def by (rule balanced_since_transfer [OF m])
  show ?thesis
    using balanced_since_new_events [OF s] balanced_since_new_events [OF r]
    by simp
qed

text \<open>The same over a whole call with its retries.\<close>

lemma Send_Receive_handles_released:
  "held_after []
     (new_events m (snd (Send bk now local_addr len remote_host remote_port extend_info m))) = []
   \<and> released
        (new_events m (snd (Send bk now local_addr len remote_host remote_port extend_info m)))
       = obtained
           (new_events m (snd (Send bk now local_addr len remote_host remote_port extend_info m)))
   \<and> held_after []
        (new_events m (snd (Receive bk now local_addr len remote_host remote_port extend_info m))) = []
   \<and> released
        (new_events m (snd (Receive bk now local_addr len remote_host remote_port extend_info m)))
       = obtained
           (new_events m (snd (Receive bk now local_addr len remote_host remote_port extend_info m)))"
  using
    balanced_since_new_events [OF balanced_since_Send
      [of m bk now local_addr len remote_host remote_port extend_info]]
    balanced_since_new_events [OF balanced_since_Receive
      [of m bk now local_addr len remote_host remote_port extend_info]]
  by simp

subsection \<open>The transfer request\<close>

text \<open>
  The request and the configuration an attempt submits, once the peer is resolved: the
  opcode of the operation, one local segment, the remote address taken from the
  extend-info, the resolved instance id, and \<open>{4, 1 MiB, time-out}\<close>, the time-out being
  the member the caller passes, \<open>-1\<close> included. The length of the segment is the length
  argument converted to 32 bits.
\<close>

lemma transfer_func_request:
  assumes "query_ret (bk (served (world m))) = UTRANS_RET_SUCC"
  shows "filter is_exec_transfer (new_events m (snd (transfer_func user_op tmo bk la len h p rb m)))
    = [utrans_exec_transfer (ctx m)
         \<lparr> inst_id = query_inst_id (bk (served (world m))), opcode = user_op, seg_num = 1,
           rbuf = rb, field5 = 0, lbuf_seg = [\<lparr> addr_beg = la, trz_size = ucast len \<rparr>] \<rparr>
         \<lparr> pollers = 4, chunk = 1048576, timeout = tmo \<rparr>
         (map_option fst (exec_op (bk (served (world m)))))]"
  using assms
  by (auto simp add: transfer_func_def Let_def new_events_def split: option.splits prod.splits)

text \<open>
  Claim C7 says that the single local segment of the request is \<open>{local_addr, length}\<close>.
  \<^verbatim>\<open>Send\<close> and \<^verbatim>\<open>Receive\<close> take the length as a \<^verbatim>\<open>size_t\<close> and narrow it with
  \<^verbatim>\<open>static_cast<uint32_t>\<close>, with no check of the range: for a buffer of 4 GiB
  (\<open>2^32\<close> bytes) on a started object, an attempt submits a segment of length 0 and
  succeeds.
\<close>

theorem attempt_4GiB_segment_length_zero:
  "fst (send_func bk_ok 4096 4294967296 ''peer'' 19001 8192 started0) = Inr True
   \<and> new_events started0 (snd (send_func bk_ok 4096 4294967296 ''peer'' 19001 8192 started0))
       = [utrans_query_instid (Some 1) ''peer'' 19001,
          utrans_exec_transfer (Some 1)
            \<lparr>inst_id = 42, opcode = USER_OP_WRITE, seg_num = 1, rbuf = 8192, field5 = 0,
              lbuf_seg = [\<lparr>addr_beg = 4096, trz_size = 0\<rparr>]\<rparr>
            \<lparr>pollers = 4, chunk = 1048576, timeout = 5000\<rparr> (Some 7),
          utrans_get_req_exec_result 7,
          utrans_unref_req_info 7]
   \<and> fst (recv_func bk_ok 4096 4294967296 ''peer'' 19001 8192 started0) = Inr True
   \<and> new_events started0 (snd (recv_func bk_ok 4096 4294967296 ''peer'' 19001 8192 started0))
       = [utrans_query_instid (Some 1) ''peer'' 19001,
          utrans_exec_transfer (Some 1)
            \<lparr>inst_id = 42, opcode = USER_OP_READ, seg_num = 1, rbuf = 8192, field5 = 0,
              lbuf_seg = [\<lparr>addr_beg = 4096, trz_size = 0\<rparr>]\<rparr>
            \<lparr>pollers = 4, chunk = 1048576, timeout = -1\<rparr> (Some 7),
          utrans_get_req_exec_result 7,
          utrans_unref_req_info 7]"
  by code_simp

text \<open>The whole call: \<^verbatim>\<open>Send\<close> of 4 GiB returns true after that one attempt.\<close>

lemma Send_4GiB_returns_true:
  "fst (Send bk_ok 1000 4096 4294967296 ''peer'' 19001 (Some [any_const_void_ptr 8192]) started0)
     = Inr True
   \<and> new_events started0
        (snd (Send bk_ok 1000 4096 4294967296 ''peer'' 19001
                (Some [any_const_void_ptr 8192]) started0))
       = [utrans_query_instid (Some 1) ''peer'' 19001,
          utrans_exec_transfer (Some 1)
            \<lparr>inst_id = 42, opcode = USER_OP_WRITE, seg_num = 1, rbuf = 8192, field5 = 0,
              lbuf_seg = [\<lparr>addr_beg = 4096, trz_size = 0\<rparr>]\<rparr>
            \<lparr>pollers = 4, chunk = 1048576, timeout = 5000\<rparr> (Some 7),
          utrans_get_req_exec_result 7,
          utrans_unref_req_info 7]"
  by code_simp

subsection \<open>Memory registration\<close>

text \<open>
  Claim C8 says that every \<^verbatim>\<open>RegisterMemory\<close> call with \<open>is_vram = false\<close> dispatches the
  RAM registration and ends in a hard error or in true. On an object whose context is not
  initialised nothing is dispatched and the call returns false.
\<close>

theorem RegisterMemory_uninitialized_no_dispatch:
  "RegisterMemory (Some 1) 4096 64 False 3 (New opts0) = (Inr False, New opts0)"
  by (simp add: RegisterMemory_def New_def)

text \<open>
  Claim C8, amended. On an initialised context, a \<^verbatim>\<open>RegisterMemory\<close> call with
  \<open>is_vram = false\<close> makes exactly one backend call, \<^verbatim>\<open>utrans_regist_ram\<close> with the NUMA
  node \<^verbatim>\<open>rdma_numa_node_\<close> of the engine's primary NIC, whatever \<open>gpu_id_or_numa_node\<close>
  the caller passes; a null handle raises \<^verbatim>\<open>std::runtime_error\<close> to the caller and a
  non-null handle yields true. On an uninitialised context the call returns false and
  makes no backend call.
\<close>

theorem RegisterMemory_ram:
  "(ctx m \<noteq> None \<longrightarrow>
      new_events m (snd (RegisterMemory mr addr len False gpu_id_or_numa_node m))
        = [utrans_regist_ram (ctx m) addr len (rdma_numa_node m)]
      \<and> fst (RegisterMemory mr addr len False gpu_id_or_numa_node m)
        = (if mr = None then Inl runtime_error else Inr True))
   \<and> (ctx m = None \<longrightarrow>
      RegisterMemory mr addr len False gpu_id_or_numa_node m = (Inr False, m))"
  by (simp add: RegisterMemory_def Let_def)

theorem RegisterMemory_ram_witness:
  "ctx started0 \<noteq> None \<and> rdma_numa_node started0 = 1
   \<and> new_events started0 (snd (RegisterMemory (Some 1) 4096 64 False 3 started0))
       = [utrans_regist_ram (Some 1) 4096 64 1]
   \<and> fst (RegisterMemory (Some 1) 4096 64 False 3 started0) = Inr True
   \<and> fst (RegisterMemory None 4096 64 False 3 started0) = Inl runtime_error
   \<and> ctx (New opts0) = None
   \<and> RegisterMemory (Some 1) 4096 64 False 3 (New opts0) = (Inr False, New opts0)"
proof -
  have c: "ctx started0 \<noteq> None" "ctx started0 = Some 1" by (simp_all add: started0_fields)
  have n: "rdma_numa_node started0 = 1" by code_simp
  have z: "ctx (New opts0) = None" by (simp add: New_def)
  note a = RegisterMemory_ram [of started0 "Some 1" 4096 64 3, THEN conjunct1, THEN mp, OF c(1)]
  note b = RegisterMemory_ram [of started0 None 4096 64 3, THEN conjunct1, THEN mp, OF c(1)]
  note d = RegisterMemory_ram [of "New opts0" "Some 1" 4096 64 3, THEN conjunct2, THEN mp, OF z]
  show ?thesis
    using a b d c n z by simp
qed

subsection \<open>Binding the listener\<close>

lemma setup_func_Inr:
  assumes "setup_func K env base fr = (Inr u, fr')"
  shows "attempt_count fr < K"
    and "rpcsrv_ret env (base + attempt_count fr) = UTRANS_RET_SUCC"
    and "success fr'"
    and "local_server_port (self fr') = base + attempt_count fr"
  using assms by (auto simp add: setup_func_def Let_def split: if_splits)

lemma setup_func_Inl:
  assumes "setup_func K env base fr = (Inl e, fr')"
  shows "e \<noteq> NonRetryableException"
    and "success fr' = success fr"
    and "local_server_port (self fr') = local_server_port (self fr)"
    and "attempt_count fr \<le> attempt_count fr'"
    and "attempt_count fr < K \<longrightarrow>
           rpcsrv_ret env (base + attempt_count fr) \<noteq> UTRANS_RET_SUCC
           \<and> attempt_count fr' = attempt_count fr + 1"
  using assms by (auto simp add: setup_func_def Let_def split: if_splits)

lemma setup_func_stuck:
  assumes "\<forall>j. attempt_count fr \<le> j \<and> j < K \<longrightarrow> rpcsrv_ret env (base + j) \<noteq> UTRANS_RET_SUCC"
  shows "\<exists>fr'. setup_func K env base fr = (Inl runtime_error, fr')"
  using assms by (auto simp add: setup_func_def Let_def)

lemma Retry_loop_setup_Inr:
  assumes "Retry_loop sleep_frame (setup_func K env base) None n fr = (Inr u, fr')"
  shows "success fr' \<and>
    (\<exists>j. attempt_count fr \<le> j \<and> j < K \<and> rpcsrv_ret env (base + j) = UTRANS_RET_SUCC
       \<and> (\<forall>i. attempt_count fr \<le> i \<and> i < j \<longrightarrow> rpcsrv_ret env (base + i) \<noteq> UTRANS_RET_SUCC)
       \<and> local_server_port (self fr') = base + j)"
  using assms
proof (induction n arbitrary: fr)
  case 0
  then have "setup_func K env base fr = (Inr u, fr')" by simp
  from setup_func_Inr [OF this] show ?case by auto
next
  case (Suc n)
  obtain r fr1 where step: "setup_func K env base fr = (r, fr1)"
    by (cases "setup_func K env base fr")
  show ?case
  proof (cases r)
    case (Inr v)
    with step Suc.prems have "setup_func K env base fr = (Inr u, fr')" by simp
    from setup_func_Inr [OF this] show ?thesis by auto
  next
    case (Inl e)
    with step have s: "setup_func K env base fr = (Inl e, fr1)" by simp
    note f = setup_func_Inl [OF s]
    from Suc.prems step Inl f(1)
    have "Retry_loop sleep_frame (setup_func K env base) None n fr1 = (Inr u, fr')" by simp
    from Suc.IH [OF this] obtain j where j: "success fr'" "attempt_count fr1 \<le> j" "j < K"
        "rpcsrv_ret env (base + j) = UTRANS_RET_SUCC"
        "\<forall>i. attempt_count fr1 \<le> i \<and> i < j \<longrightarrow> rpcsrv_ret env (base + i) \<noteq> UTRANS_RET_SUCC"
        "local_server_port (self fr') = base + j"
      by blast
    have lo: "attempt_count fr \<le> j" using f(4) j(2) by simp
    have "rpcsrv_ret env (base + i) \<noteq> UTRANS_RET_SUCC" if i: "attempt_count fr \<le> i" "i < j" for i
    proof (cases "attempt_count fr1 \<le> i")
      case True
      with j(5) i show ?thesis by simp
    next
      case False
      from i j(3) have "attempt_count fr < K" by simp
      with f(5) have "rpcsrv_ret env (base + attempt_count fr) \<noteq> UTRANS_RET_SUCC"
          "attempt_count fr1 = attempt_count fr + 1" by simp_all
      moreover from this False i have "i = attempt_count fr" by simp
      ultimately show ?thesis by simp
    qed
    with j lo show ?thesis by blast
  qed
qed

lemma Retry_loop_setup_Inl:
  assumes "Retry_loop sleep_frame (setup_func K env base) None n fr = (Inl e, fr')"
  shows "success fr' = success fr \<and> local_server_port (self fr') = local_server_port (self fr)"
  using assms
proof (induction n arbitrary: fr)
  case 0
  then have "setup_func K env base fr = (Inl e, fr')" by simp
  from setup_func_Inl [OF this] show ?case by simp
next
  case (Suc n)
  obtain r fr1 where step: "setup_func K env base fr = (r, fr1)"
    by (cases "setup_func K env base fr")
  show ?case
  proof (cases r)
    case (Inr v)
    with step Suc.prems show ?thesis by simp
  next
    case (Inl e1)
    with step have s: "setup_func K env base fr = (Inl e1, fr1)" by simp
    note f = setup_func_Inl [OF s]
    from Suc.prems step Inl f(1)
    have "Retry_loop sleep_frame (setup_func K env base) None n fr1 = (Inl e, fr')" by simp
    from Suc.IH [OF this] f show ?thesis by simp
  qed
qed

lemma Retry_loop_setup_exhausted:
  assumes "\<forall>j. attempt_count fr \<le> j \<and> j < K \<longrightarrow> rpcsrv_ret env (base + j) \<noteq> UTRANS_RET_SUCC"
  shows "\<exists>e fr'. Retry_loop sleep_frame (setup_func K env base) None n fr = (Inl e, fr')"
  using assms
proof (induction n arbitrary: fr)
  case 0
  with setup_func_stuck [of fr K env base] show ?case by auto
next
  case (Suc n)
  from setup_func_stuck [OF Suc.prems] obtain fr1
    where s: "setup_func K env base fr = (Inl runtime_error, fr1)" by blast
  from setup_func_Inl(4) [OF s] Suc.prems
  have "\<forall>j. attempt_count fr1 \<le> j \<and> j < K \<longrightarrow> rpcsrv_ret env (base + j) \<noteq> UTRANS_RET_SUCC"
    by simp
  from Suc.IH [OF this] s show ?case by simp
qed

lemma SetupRpcServerWithRetry_True:
  assumes "SetupRpcServerWithRetry K env m = (True, m')"
  shows "\<exists>j. 0 \<le> j \<and> j < K
       \<and> rpcsrv_ret env (kRdmaPortStart + random_offset env + j) = UTRANS_RET_SUCC
       \<and> (\<forall>i. 0 \<le> i \<and> i < j
             \<longrightarrow> rpcsrv_ret env (kRdmaPortStart + random_offset env + i) \<noteq> UTRANS_RET_SUCC)
       \<and> local_server_port m' = kRdmaPortStart + random_offset env + j"
proof -
  let ?fr0 = "\<lparr> self = m, attempt_count = 0, success = False \<rparr>"
  let ?run = "Retry_loop sleep_frame (setup_func K env (kRdmaPortStart + random_offset env)) None
                (nat K) ?fr0"
  obtain r fr where run: "?run = (r, fr)" by (cases ?run)
  with assms obtain u where "r = Inr u" "m' = self fr"
    by (cases r) (simp_all add: SetupRpcServerWithRetry_def Retry_def Let_def)
  with run Retry_loop_setup_Inr [of K env "kRdmaPortStart + random_offset env" "nat K" ?fr0 u fr]
  show ?thesis by simp
qed

lemma SetupRpcServerWithRetry_False:
  assumes "SetupRpcServerWithRetry K env m = (False, m')"
  shows "local_server_port m' = local_server_port m"
proof -
  let ?fr0 = "\<lparr> self = m, attempt_count = 0, success = False \<rparr>"
  let ?run = "Retry_loop sleep_frame (setup_func K env (kRdmaPortStart + random_offset env)) None
                (nat K) ?fr0"
  obtain r fr where run: "?run = (r, fr)" by (cases ?run)
  show ?thesis
  proof (cases r)
    case (Inl e)
    with run assms have "m' = self fr"
      by (simp add: SetupRpcServerWithRetry_def Retry_def Let_def)
    with run Inl Retry_loop_setup_Inl [of K env "kRdmaPortStart + random_offset env" "nat K" ?fr0 e fr]
    show ?thesis by simp
  next
    case (Inr u)
    with run Retry_loop_setup_Inr [of K env "kRdmaPortStart + random_offset env" "nat K" ?fr0 u fr]
    have "success fr" by simp
    with run Inr assms show ?thesis
      by (simp add: SetupRpcServerWithRetry_def Retry_def Let_def)
  qed
qed

lemma SetupRpcServerWithRetry_exhausted:
  assumes "\<forall>j. 0 \<le> j \<and> j < K
     \<longrightarrow> rpcsrv_ret env (kRdmaPortStart + random_offset env + j) \<noteq> UTRANS_RET_SUCC"
  shows "fst (SetupRpcServerWithRetry K env m) = False"
proof -
  let ?fr0 = "\<lparr> self = m, attempt_count = 0, success = False \<rparr>"
  from Retry_loop_setup_exhausted [of ?fr0 K env "kRdmaPortStart + random_offset env" "nat K"] assms
  obtain e fr where "Retry_loop sleep_frame (setup_func K env (kRdmaPortStart + random_offset env))
      None (nat K) ?fr0 = (Inl e, fr)" by auto
  then show ?thesis
    by (simp add: SetupRpcServerWithRetry_def Retry_def Let_def)
qed

lemma SetupRpcServer_True:
  assumes "SetupRpcServer opts K env m = (True, m')"
  shows "(TRANSFER_ENGINE_SERVICE_FIXED_PORT opts
            \<longrightarrow> local_server_port m' = TRANSFER_ENGINE_LOCAL_PORT opts)
       \<and> (\<not> TRANSFER_ENGINE_SERVICE_FIXED_PORT opts \<longrightarrow>
            (\<exists>j. 0 \<le> j \<and> j < K
               \<and> rpcsrv_ret env (kRdmaPortStart + random_offset env + j) = UTRANS_RET_SUCC
               \<and> (\<forall>i. 0 \<le> i \<and> i < j
                     \<longrightarrow> rpcsrv_ret env (kRdmaPortStart + random_offset env + i) \<noteq> UTRANS_RET_SUCC)
               \<and> local_server_port m' = kRdmaPortStart + random_offset env + j))"
proof (cases "TRANSFER_ENGINE_SERVICE_FIXED_PORT opts")
  case True
  with assms show ?thesis
    by (auto simp add: SetupRpcServer_def Let_def emit_def split: if_splits)
next
  case False
  with assms have "SetupRpcServerWithRetry K env m = (True, m')"
    by (auto simp add: SetupRpcServer_def split: prod.splits bool.splits)
  from SetupRpcServerWithRetry_True [OF this] False show ?thesis by simp
qed

lemma SetupRpcServer_False:
  assumes "SetupRpcServer opts K env m = (False, m')"
  shows "local_server_port m' = local_server_port m"
proof (cases "TRANSFER_ENGINE_SERVICE_FIXED_PORT opts")
  case True
  with assms show ?thesis
    by (auto simp add: SetupRpcServer_def Let_def split: if_splits)
next
  case False
  with assms have "SetupRpcServerWithRetry K env m = (False, m')"
    by (auto simp add: SetupRpcServer_def split: prod.splits bool.splits)
  from SetupRpcServerWithRetry_False [OF this] show ?thesis .
qed

lemma SetupRpcServer_exhausted:
  assumes "\<not> TRANSFER_ENGINE_SERVICE_FIXED_PORT opts"
    and "\<forall>j. 0 \<le> j \<and> j < K
     \<longrightarrow> rpcsrv_ret env (kRdmaPortStart + random_offset env + j) \<noteq> UTRANS_RET_SUCC"
  shows "fst (SetupRpcServer opts K env m) = False"
  using assms(1) SetupRpcServerWithRetry_exhausted [OF assms(2), of m]
  by (auto simp add: SetupRpcServer_def split: prod.splits bool.splits)

lemma local_server_port_before_bind [simp]:
  "local_server_port (InitializeFromOptions opts env m) = local_server_port m"
  "local_server_port (InitializeRdmaConfig opts env m) = local_server_port m"
  "local_server_port (snd (SetupUtransContext env m)) = local_server_port m"
  "local_server_port (InitializePerfMetricsThread opts m) = local_server_port m"
  by (simp_all add: InitializeFromOptions_def InitializeRdmaConfig_def SetupUtransContext_def
      InitializePerfMetricsThread_def Let_def)

lemma Start_cases:
  obtains (ctx_fail) m3 where
      "SetupUtransContext env (InitializeRdmaConfig opts env (InitializeFromOptions opts env m))
         = (False, m3)"
      "Start opts K env m = (False, m3)"
  | (rpc_fail) m3 m4 where
      "SetupUtransContext env (InitializeRdmaConfig opts env (InitializeFromOptions opts env m))
         = (True, m3)"
      "SetupRpcServer opts K env m3 = (False, m4)"
      "Start opts K env m = (False, m4)"
  | (started) m3 m4 where
      "SetupUtransContext env (InitializeRdmaConfig opts env (InitializeFromOptions opts env m))
         = (True, m3)"
      "SetupRpcServer opts K env m3 = (True, m4)"
      "Start opts K env m
         = (True, emit (sleep_for 1000) ((InitializePerfMetricsThread opts m4)\<lparr>is_running := True\<rparr>))"
proof -
  let ?m2 = "InitializeRdmaConfig opts env (InitializeFromOptions opts env m)"
  obtain ok3 m3 where c: "SetupUtransContext env ?m2 = (ok3, m3)"
    by (cases "SetupUtransContext env ?m2")
  obtain ok4 m4 where r: "SetupRpcServer opts K env m3 = (ok4, m4)"
    by (cases "SetupRpcServer opts K env m3")
  show thesis
  proof (cases ok3)
    case False
    with c have "Start opts K env m = (False, m3)" by (simp add: Start_def Let_def)
    with c False show thesis by (auto intro: ctx_fail)
  next
    case True
    show thesis
    proof (cases ok4)
      case False
      with c r True have "Start opts K env m = (False, m4)" by (simp add: Start_def Let_def)
      with c r True False show thesis by (auto intro: rpc_fail)
    next
      case ok: True
      with c r True have "Start opts K env m
         = (True, emit (sleep_for 1000) ((InitializePerfMetricsThread opts m4)\<lparr>is_running := True\<rparr>))"
        by (simp add: Start_def Let_def)
      with c r True ok show thesis by (auto intro: started)
    qed
  qed
qed

lemma Start_True:
  assumes "Start opts K env m = (True, m')"
  shows "\<exists>m3 m4. SetupRpcServer opts K env m3 = (True, m4)
           \<and> local_server_port m' = local_server_port m4"
proof (cases rule: Start_cases [of env opts m K])
  case (ctx_fail m3)
  with assms show ?thesis by simp
next
  case (rpc_fail m3 m4)
  with assms show ?thesis by simp
next
  case (started m3 m4)
  with assms have "local_server_port m' = local_server_port m4" by auto
  with started(2) show ?thesis by blast
qed

lemma Start_False:
  assumes "Start opts K env m = (False, m')"
  shows "local_server_port m' = local_server_port m"
proof (cases rule: Start_cases [of env opts m K])
  case (ctx_fail m3)
  with assms local_server_port_before_bind(3)
      [of env "InitializeRdmaConfig opts env (InitializeFromOptions opts env m)"]
  show ?thesis by simp
next
  case (rpc_fail m3 m4)
  with assms SetupRpcServer_False [of opts K env m3 m4] local_server_port_before_bind(3)
      [of env "InitializeRdmaConfig opts env (InitializeFromOptions opts env m)"]
  show ?thesis by simp
next
  case (started m3 m4)
  with assms show ?thesis by simp
qed

lemma Start_exhausted:
  assumes "\<not> TRANSFER_ENGINE_SERVICE_FIXED_PORT opts"
    and "\<forall>j. 0 \<le> j \<and> j < K
     \<longrightarrow> rpcsrv_ret env (kRdmaPortStart + random_offset env + j) \<noteq> UTRANS_RET_SUCC"
  shows "fst (Start opts K env m) = False"
proof (cases rule: Start_cases [of env opts m K])
  case (ctx_fail m3)
  then show ?thesis by simp
next
  case (rpc_fail m3 m4)
  then show ?thesis by simp
next
  case (started m3 m4)
  with SetupRpcServer_exhausted [OF assms, of m3] show ?thesis by simp
qed

text \<open>
  Claim C4. After a successful \<^verbatim>\<open>Start\<close>, \<^verbatim>\<open>GetBindPort()\<close> is \<^verbatim>\<open>Options.local_port\<close> in
  fixed-port mode. In scan mode, with \<open>base = 51010 + r\<close> for the drawn offset
  \<open>0 \<le> r \<le> 1000\<close>, it is \<open>base + attempt\<close> for the first attempt
  \<open>0 \<le> attempt < kBindPortMaxRetry\<close> whose bind succeeds, so it lies in
  \<open>[51010, 51010 + 1000 + kBindPortMaxRetry)\<close>; and when the binds of all the
  \<open>kBindPortMaxRetry\<close> ports from \<open>base\<close> on fail, \<^verbatim>\<open>Start\<close> returns false. The offset is
  the number the generator returned; that \<^verbatim>\<open>std::uniform_int_distribution<>(0, 1000)\<close>
  draws it uniformly from that range is the library's contract.
\<close>

theorem Start_bind_port:
  "(fst (Start opts kBindPortMaxRetry env m) \<and> TRANSFER_ENGINE_SERVICE_FIXED_PORT opts
      \<longrightarrow> GetBindPort (snd (Start opts kBindPortMaxRetry env m)) = TRANSFER_ENGINE_LOCAL_PORT opts)
   \<and> (fst (Start opts kBindPortMaxRetry env m) \<and> \<not> TRANSFER_ENGINE_SERVICE_FIXED_PORT opts
        \<and> 0 \<le> random_offset env \<and> random_offset env \<le> 1000
      \<longrightarrow> (\<exists>attempt. 0 \<le> attempt \<and> attempt < kBindPortMaxRetry
             \<and> rpcsrv_ret env (51010 + random_offset env + attempt) = UTRANS_RET_SUCC
             \<and> (\<forall>i. 0 \<le> i \<and> i < attempt
                   \<longrightarrow> rpcsrv_ret env (51010 + random_offset env + i) \<noteq> UTRANS_RET_SUCC)
             \<and> GetBindPort (snd (Start opts kBindPortMaxRetry env m))
                 = 51010 + random_offset env + attempt)
          \<and> 51010 \<le> GetBindPort (snd (Start opts kBindPortMaxRetry env m))
          \<and> GetBindPort (snd (Start opts kBindPortMaxRetry env m))
               < 51010 + 1000 + kBindPortMaxRetry)
   \<and> (\<not> TRANSFER_ENGINE_SERVICE_FIXED_PORT opts
        \<and> (\<forall>i. 0 \<le> i \<and> i < kBindPortMaxRetry
              \<longrightarrow> rpcsrv_ret env (51010 + random_offset env + i) \<noteq> UTRANS_RET_SUCC)
      \<longrightarrow> \<not> fst (Start opts kBindPortMaxRetry env m))"
proof (intro conjI impI)
  assume h: "fst (Start opts kBindPortMaxRetry env m) \<and> TRANSFER_ENGINE_SERVICE_FIXED_PORT opts"
  then have "Start opts kBindPortMaxRetry env m = (True, snd (Start opts kBindPortMaxRetry env m))"
    by (cases "Start opts kBindPortMaxRetry env m") simp
  from Start_True [OF this] obtain m3 m4
    where "SetupRpcServer opts kBindPortMaxRetry env m3 = (True, m4)"
      "local_server_port (snd (Start opts kBindPortMaxRetry env m)) = local_server_port m4"
    by blast
  with SetupRpcServer_True [of opts kBindPortMaxRetry env m3 m4] h
  show "GetBindPort (snd (Start opts kBindPortMaxRetry env m)) = TRANSFER_ENGINE_LOCAL_PORT opts"
    by (simp add: GetBindPort_def)
next
  assume h: "\<not> TRANSFER_ENGINE_SERVICE_FIXED_PORT opts
        \<and> (\<forall>i. 0 \<le> i \<and> i < kBindPortMaxRetry
              \<longrightarrow> rpcsrv_ret env (51010 + random_offset env + i) \<noteq> UTRANS_RET_SUCC)"
  then show "\<not> fst (Start opts kBindPortMaxRetry env m)"
    using Start_exhausted [of opts kBindPortMaxRetry env m] by (simp add: kRdmaPortStart_def)
next
  assume h: "fst (Start opts kBindPortMaxRetry env m) \<and> \<not> TRANSFER_ENGINE_SERVICE_FIXED_PORT opts
        \<and> 0 \<le> random_offset env \<and> random_offset env \<le> 1000"
  then have "Start opts kBindPortMaxRetry env m = (True, snd (Start opts kBindPortMaxRetry env m))"
    by (cases "Start opts kBindPortMaxRetry env m") simp
  from Start_True [OF this] obtain m3 m4
    where "SetupRpcServer opts kBindPortMaxRetry env m3 = (True, m4)"
      "local_server_port (snd (Start opts kBindPortMaxRetry env m)) = local_server_port m4"
    by blast
  with SetupRpcServer_True [of opts kBindPortMaxRetry env m3 m4] h
  obtain j where j: "0 \<le> j" "j < kBindPortMaxRetry"
      "rpcsrv_ret env (51010 + random_offset env + j) = UTRANS_RET_SUCC"
      "\<forall>i. 0 \<le> i \<and> i < j \<longrightarrow> rpcsrv_ret env (51010 + random_offset env + i) \<noteq> UTRANS_RET_SUCC"
      "GetBindPort (snd (Start opts kBindPortMaxRetry env m)) = 51010 + random_offset env + j"
    by (auto simp add: GetBindPort_def kRdmaPortStart_def)
  then show "\<exists>attempt. 0 \<le> attempt \<and> attempt < kBindPortMaxRetry
             \<and> rpcsrv_ret env (51010 + random_offset env + attempt) = UTRANS_RET_SUCC
             \<and> (\<forall>i. 0 \<le> i \<and> i < attempt
                   \<longrightarrow> rpcsrv_ret env (51010 + random_offset env + i) \<noteq> UTRANS_RET_SUCC)
             \<and> GetBindPort (snd (Start opts kBindPortMaxRetry env m))
                 = 51010 + random_offset env + attempt"
    by blast
  from j h show "51010 \<le> GetBindPort (snd (Start opts kBindPortMaxRetry env m))" by simp
  from j h show "GetBindPort (snd (Start opts kBindPortMaxRetry env m))
               < 51010 + 1000 + kBindPortMaxRetry" by simp
qed

theorem Start_bind_port_witness:
  "fst (Start opts0 3 env0 (New opts0)) \<and> TRANSFER_ENGINE_SERVICE_FIXED_PORT opts0
   \<and> GetBindPort (snd (Start opts0 3 env0 (New opts0))) = TRANSFER_ENGINE_LOCAL_PORT opts0
   \<and> fst (Start opts_scan 3 env_first_taken (New opts0))
   \<and> \<not> TRANSFER_ENGINE_SERVICE_FIXED_PORT opts_scan
   \<and> 0 \<le> random_offset env_first_taken \<and> random_offset env_first_taken \<le> 1000
   \<and> 51010 \<le> GetBindPort (snd (Start opts_scan 3 env_first_taken (New opts0)))
   \<and> GetBindPort (snd (Start opts_scan 3 env_first_taken (New opts0))) < 51010 + 1000 + 3
   \<and> rpcsrv_ret env_all_taken (51010 + random_offset env_all_taken + 0) \<noteq> UTRANS_RET_SUCC
   \<and> rpcsrv_ret env_all_taken (51010 + random_offset env_all_taken + 1) \<noteq> UTRANS_RET_SUCC
   \<and> rpcsrv_ret env_all_taken (51010 + random_offset env_all_taken + 2) \<noteq> UTRANS_RET_SUCC
   \<and> \<not> fst (Start opts_scan 3 env_all_taken (New opts0))"
proof -
  have h1: "fst (Start opts0 3 env0 (New opts0)) \<and> TRANSFER_ENGINE_SERVICE_FIXED_PORT opts0"
    by code_simp
  have h2: "fst (Start opts_scan 3 env_first_taken (New opts0))
      \<and> \<not> TRANSFER_ENGINE_SERVICE_FIXED_PORT opts_scan
      \<and> 0 \<le> random_offset env_first_taken \<and> random_offset env_first_taken \<le> 1000"
    by code_simp
  have r: "rpcsrv_ret env_all_taken p \<noteq> UTRANS_RET_SUCC" for p
    by (simp add: env_all_taken_def)
  have h3: "\<not> TRANSFER_ENGINE_SERVICE_FIXED_PORT opts_scan
      \<and> (\<forall>i. 0 \<le> i \<and> i < 3
            \<longrightarrow> rpcsrv_ret env_all_taken (51010 + random_offset env_all_taken + i) \<noteq> UTRANS_RET_SUCC)"
    using r by (simp add: opts_scan_def opts0_def)
  note a = Start_bind_port [of opts0 3 env0 "New opts0", THEN conjunct1, THEN mp, OF h1]
  note b = Start_bind_port [of opts_scan 3 env_first_taken "New opts0",
      THEN conjunct2, THEN conjunct1, THEN mp, OF h2]
  note c = Start_bind_port [of opts_scan 3 env_all_taken "New opts0",
      THEN conjunct2, THEN conjunct2, THEN mp, OF h3]
  show ?thesis
    using h1 h2 a b [THEN conjunct2] c r by (intro conjI) simp_all
qed

text \<open>
  Claim C10. On a fresh object \<^verbatim>\<open>GetBindPort()\<close> is 0, the default of
  \<^verbatim>\<open>local_server_port_\<close>, and it is still 0 after a \<^verbatim>\<open>Start\<close> of a fresh object that
  returned false: \<^verbatim>\<open>Start\<close> fails at the context setup or at the bind, and the port is
  recorded only when a bind has succeeded.
\<close>

theorem GetBindPort_before_bind:
  "GetBindPort (New dflt) = 0
   \<and> (\<not> fst (Start opts kBindPortMaxRetry env (New dflt))
        \<longrightarrow> GetBindPort (snd (Start opts kBindPortMaxRetry env (New dflt))) = 0)"
proof (intro conjI impI)
  show z: "GetBindPort (New dflt) = 0" by (simp add: GetBindPort_def New_def)
  assume "\<not> fst (Start opts kBindPortMaxRetry env (New dflt))"
  then have "Start opts kBindPortMaxRetry env (New dflt)
      = (False, snd (Start opts kBindPortMaxRetry env (New dflt)))"
    by (cases "Start opts kBindPortMaxRetry env (New dflt)") simp
  from Start_False [OF this] z
  show "GetBindPort (snd (Start opts kBindPortMaxRetry env (New dflt))) = 0"
    by (simp add: GetBindPort_def)
qed

theorem GetBindPort_before_bind_witness:
  "\<not> fst (Start opts_scan 3 env_all_taken (New opts0))
   \<and> GetBindPort (snd (Start opts_scan 3 env_all_taken (New opts0))) = 0"
proof -
  have h: "\<not> fst (Start opts_scan 3 env_all_taken (New opts0))"
    by code_simp
  from GetBindPort_before_bind [of opts0 opts_scan 3 env_all_taken, THEN conjunct2, THEN mp, OF h] h
  show ?thesis by simp
qed

subsection \<open>What Start does to the sampler thread\<close>

lemma lifecycle_emit [simp]: "lifecycle (emit e m) = lifecycle m"
  by (simp add: lifecycle_def)

lemma lifecycle_next_attempt [simp]: "lifecycle (next_attempt m) = lifecycle m"
  by (simp add: lifecycle_def)

lemma lifecycle_sleep_ms [simp]: "lifecycle (sleep_ms ms m) = lifecycle m"
  by (simp add: sleep_ms_def)

lemma extends_without_refl: "events m' = events m \<Longrightarrow> extends_without e m m'"
  by (simp add: extends_without_def)

lemma extends_without_emit:
  "extends_without e m x \<Longrightarrow> e' \<noteq> e \<Longrightarrow> extends_without e m (emit e' x)"
  by (auto simp add: extends_without_def)

lemma extends_without_same:
  "extends_without e m x \<Longrightarrow> events x' = events x \<Longrightarrow> extends_without e m x'"
  by (auto simp add: extends_without_def)

text \<open>The port scan changes the recorded port, the listen port and the log only.\<close>

lemma setup_func_lifecycle:
  "lifecycle (self (snd (setup_func K env base fr))) = lifecycle (self fr)"
  by (simp add: setup_func_def Let_def lifecycle_def)

lemma setup_func_extends:
  assumes "extends_without thread_start m (self fr)"
  shows "extends_without thread_start m (self (snd (setup_func K env base fr)))"
  using assms
  by (auto simp add: setup_func_def Let_def intro: extends_without_emit
      elim: extends_without_same simp add: events_def emit_def extends_without_def)

lemma SetupRpcServerWithRetry_keeps:
  "lifecycle (snd (SetupRpcServerWithRetry K env m)) = lifecycle m"
  "extends_without thread_start m (snd (SetupRpcServerWithRetry K env m))"
proof -
  let ?fr0 = "\<lparr> self = m, attempt_count = 0, success = False \<rparr>"
  let ?f = "setup_func K env (kRdmaPortStart + random_offset env)"
  let ?fr = "snd (Retry_loop sleep_frame ?f None (nat K) ?fr0)"
  have "lifecycle (self ?fr) = lifecycle m"
    by (rule Retry_loop_invariant [where P = "\<lambda>fr. lifecycle (self fr) = lifecycle m"])
       (simp_all add: setup_func_lifecycle sleep_frame_def)
  moreover have "extends_without thread_start m (self ?fr)"
    by (rule Retry_loop_invariant [where P = "\<lambda>fr. extends_without thread_start m (self fr)"])
       (simp_all add: setup_func_extends sleep_frame_def sleep_ms_def extends_without_emit
          extends_without_refl)
  ultimately show "lifecycle (snd (SetupRpcServerWithRetry K env m)) = lifecycle m"
    and "extends_without thread_start m (snd (SetupRpcServerWithRetry K env m))"
    by (auto simp add: SetupRpcServerWithRetry_def Retry_def Let_def split: prod.splits sum.splits)
qed

lemma SetupRpcServer_keeps:
  "lifecycle (snd (SetupRpcServer opts K env m)) = lifecycle m"
  "extends_without thread_start m (snd (SetupRpcServer opts K env m))"
proof -
  show "lifecycle (snd (SetupRpcServer opts K env m)) = lifecycle m"
    using SetupRpcServerWithRetry_keeps(1) [where K = K and env = env and m = m]
    by (auto simp add: SetupRpcServer_def Let_def lifecycle_def split: prod.splits bool.splits)
  show "extends_without thread_start m (snd (SetupRpcServer opts K env m))"
    using SetupRpcServerWithRetry_keeps(2) [where K = K and env = env and m = m]
    by (auto simp add: SetupRpcServer_def Let_def extends_without_def events_def emit_def
        split: prod.splits bool.splits)
qed


lemma before_bind_keeps:
  "is_running
     (snd (SetupUtransContext env
        (InitializeRdmaConfig opts env (InitializeFromOptions opts env m))))
     = is_running m"
  "perf_logging_thread
     (snd (SetupUtransContext env
        (InitializeRdmaConfig opts env (InitializeFromOptions opts env m))))
     = perf_logging_thread m"
  "perf_logging_thread_running
     (snd (SetupUtransContext env
        (InitializeRdmaConfig opts env (InitializeFromOptions opts env m))))
     = perf_logging_thread_running m"
  "extends_without thread_start m
     (snd (SetupUtransContext env
        (InitializeRdmaConfig opts env (InitializeFromOptions opts env m))))"
  by (simp_all add: SetupUtransContext_def InitializeRdmaConfig_def InitializeFromOptions_def
      Let_def extends_without_def events_def emit_def)

lemma extends_without_trans:
  assumes "extends_without e m x" and "extends_without e x y"
  shows "extends_without e m y"
  using assms by (auto simp add: extends_without_def)

lemma Start_failed_keeps:
  assumes "\<not> fst (Start opts K env m)"
  shows "is_running (snd (Start opts K env m)) = is_running m"
    and "perf_logging_thread (snd (Start opts K env m)) = perf_logging_thread m"
    and "perf_logging_thread_running (snd (Start opts K env m)) = perf_logging_thread_running m"
proof -
  let ?m3 = "snd (SetupUtransContext env
                    (InitializeRdmaConfig opts env (InitializeFromOptions opts env m)))"
  have "is_running (snd (Start opts K env m)) = is_running m
      \<and> perf_logging_thread (snd (Start opts K env m)) = perf_logging_thread m
      \<and> perf_logging_thread_running (snd (Start opts K env m)) = perf_logging_thread_running m"
  proof (cases rule: Start_cases [of env opts m K])
    case (ctx_fail m3)
    then have "snd (Start opts K env m) = ?m3" by simp
    then show ?thesis by (simp add: before_bind_keeps)
  next
    case (rpc_fail m3 m4)
    then have "m3 = ?m3" "snd (Start opts K env m) = snd (SetupRpcServer opts K env m3)" by simp_all
    with SetupRpcServer_keeps(1) [of opts K env m3] show ?thesis
      by (simp add: lifecycle_def before_bind_keeps)
  next
    case (started m3 m4)
    with assms show ?thesis by simp
  qed
  then show "is_running (snd (Start opts K env m)) = is_running m"
    and "perf_logging_thread (snd (Start opts K env m)) = perf_logging_thread m"
    and "perf_logging_thread_running (snd (Start opts K env m)) = perf_logging_thread_running m"
    by simp_all
qed

lemma Start_succeeded_thread:
  assumes "fst (Start opts K env m)"
  shows "is_running (snd (Start opts K env m))"
    and "perf_logging_thread (snd (Start opts K env m))
          = (if TRANSFER_ENGINE_ENABLE_PERF_METRICS opts \<and> ctx (snd (Start opts K env m)) \<noteq> None
             then True else perf_logging_thread m)"
    and "perf_logging_thread_running (snd (Start opts K env m))
          = (if TRANSFER_ENGINE_ENABLE_PERF_METRICS opts \<and> ctx (snd (Start opts K env m)) \<noteq> None
             then True else perf_logging_thread_running m)"
proof -
  let ?m3 = "snd (SetupUtransContext env
                    (InitializeRdmaConfig opts env (InitializeFromOptions opts env m)))"
  let ?r = "snd (Start opts K env m)"
  have "is_running ?r
      \<and> perf_logging_thread ?r
          = (if TRANSFER_ENGINE_ENABLE_PERF_METRICS opts \<and> ctx ?r \<noteq> None
             then True else perf_logging_thread m)
      \<and> perf_logging_thread_running ?r
          = (if TRANSFER_ENGINE_ENABLE_PERF_METRICS opts \<and> ctx ?r \<noteq> None
             then True else perf_logging_thread_running m)"
  proof (cases rule: Start_cases [of env opts m K])
    case (ctx_fail m3)
    with assms show ?thesis by simp
  next
    case (rpc_fail m3 m4)
    with assms show ?thesis by simp
  next
    case (started m3 m4)
    then have m3: "m3 = ?m3" and m4: "m4 = snd (SetupRpcServer opts K env m3)"
      and r: "?r = emit (sleep_for 1000) ((InitializePerfMetricsThread opts m4)\<lparr>is_running := True\<rparr>)"
      by simp_all
    from SetupRpcServer_keeps(1) [of opts K env m3] m3 m4
    have k: "perf_logging_thread m4 = perf_logging_thread m"
        "perf_logging_thread_running m4 = perf_logging_thread_running m"
      by (simp_all add: lifecycle_def before_bind_keeps)
    show ?thesis
      unfolding r using k
      by (auto simp add: InitializePerfMetricsThread_def Let_def)
  qed
  then show "is_running ?r"
    and "perf_logging_thread ?r
          = (if TRANSFER_ENGINE_ENABLE_PERF_METRICS opts \<and> ctx ?r \<noteq> None
             then True else perf_logging_thread m)"
    and "perf_logging_thread_running ?r
          = (if TRANSFER_ENGINE_ENABLE_PERF_METRICS opts \<and> ctx ?r \<noteq> None
             then True else perf_logging_thread_running m)"
    by simp_all
qed

lemma Start_no_thread_start:
  assumes "\<not> TRANSFER_ENGINE_ENABLE_PERF_METRICS opts"
  shows "extends_without thread_start m (snd (Start opts K env m))"
proof -
  let ?m3 = "snd (SetupUtransContext env
                    (InitializeRdmaConfig opts env (InitializeFromOptions opts env m)))"
  have e3: "extends_without thread_start m ?m3" by (rule before_bind_keeps)
  show ?thesis
  proof (cases rule: Start_cases [of env opts m K])
    case (ctx_fail m3)
    then have "snd (Start opts K env m) = ?m3" by simp
    with e3 show ?thesis by simp
  next
    case (rpc_fail m3 m4)
    then have "m3 = ?m3" "snd (Start opts K env m) = snd (SetupRpcServer opts K env m3)" by simp_all
    with e3 SetupRpcServer_keeps(2) [of m3 opts K env] show ?thesis
      by (auto intro: extends_without_trans)
  next
    case (started m3 m4)
    then have m3: "m3 = ?m3" and m4: "m4 = snd (SetupRpcServer opts K env m3)"
      and r: "snd (Start opts K env m)
          = emit (sleep_for 1000) ((InitializePerfMetricsThread opts m4)\<lparr>is_running := True\<rparr>)"
      by simp_all
    from e3 SetupRpcServer_keeps(2) [of m3 opts K env] m3 m4
    have e4: "extends_without thread_start m m4" by (auto intro: extends_without_trans)
    have "events ((InitializePerfMetricsThread opts m4)\<lparr>is_running := True\<rparr>) = events m4"
      using assms by (simp add: InitializePerfMetricsThread_def Let_def events_def)
    with e4 have "extends_without thread_start m ((InitializePerfMetricsThread opts m4)\<lparr>is_running := True\<rparr>)"
      by (rule extends_without_same)
    then show ?thesis unfolding r by (rule extends_without_emit) simp
  qed
qed

subsection \<open>Teardown and the sampler\<close>












text \<open>No operation but the destructor releases a context.\<close>

lemma cleans_emit [simp]: "cleans (emit e m) = cleans m @ (if is_clean e then [e] else [])"
  by (simp add: cleans_def)

lemma cleans_same: "events m' = events m \<Longrightarrow> cleans m' = cleans m"
  by (simp add: cleans_def)

lemma cleans_sleep_ms [simp]: "cleans (sleep_ms ms m) = cleans m"
  by (simp add: sleep_ms_def)

lemma cleans_next_attempt [simp]: "cleans (next_attempt m) = cleans m"
  by (simp add: cleans_def)
























text \<open>
  Claim C6 says that on every tick \<^verbatim>\<open>print_perf(ctx)\<close> is called if and only if
  \<open>now - last_send_receive_time_ < 1000\<close>. The loop body also tests \<^verbatim>\<open>ctx_ != nullptr\<close>.
  On a started object, whose sampler thread is running, a second \<^verbatim>\<open>Start\<close> whose
  \<^verbatim>\<open>utrans_setup\<close> fails and leaves \<^verbatim>\<open>ctx_\<close> null returns false before it touches the
  thread; the next tick, 900 ms after the last activity, sleeps and calls nothing.
\<close>

theorem perf_tick_silent_without_context:
  "\<not> fst (Start opts0 3 env_setup_fails started0)
   \<and> perf_logging_thread orphaned0 \<and> perf_logging_thread_running orphaned0
   \<and> ctx orphaned0 = None
   \<and> 900 - last_send_receive_time orphaned0 < 1000
   \<and> new_events orphaned0 (PerfMetricsLoggingThread_tick 900 orphaned0) = [sleep_for 500]"
  by code_simp

text \<open>
  Claim C6, amended. On every tick of the sampler loop, after the sleep of the configured
  interval, \<^verbatim>\<open>utrans_print_perf_info(ctx_)\<close> is called if and only if
  \<open>now - last_send_receive_time_ < 1000\<close> and \<^verbatim>\<open>ctx_\<close> is not null; otherwise the tick
  calls nothing. With \<^verbatim>\<open>enable_perf_metrics = false\<close>, \<^verbatim>\<open>Start\<close> starts no thread: it adds no
  thread start to the log and leaves the thread member and its flag as they were.
\<close>

theorem perf_tick:
  "events (PerfMetricsLoggingThread_tick now m)
     = events m @ [sleep_for (perf_stats_interval_ms m)]
       @ (if now - last_send_receive_time m < 1000 \<and> ctx m \<noteq> None
          then [utrans_print_perf_info (ctx m)] else [])
   \<and> (\<not> TRANSFER_ENGINE_ENABLE_PERF_METRICS opts \<longrightarrow>
        perf_logging_thread (snd (Start opts kBindPortMaxRetry env m)) = perf_logging_thread m
        \<and> perf_logging_thread_running (snd (Start opts kBindPortMaxRetry env m))
            = perf_logging_thread_running m
        \<and> thread_start \<notin> set (new_events m (snd (Start opts kBindPortMaxRetry env m))))"
proof (intro conjI impI)
  show "events (PerfMetricsLoggingThread_tick now m)
     = events m @ [sleep_for (perf_stats_interval_ms m)]
       @ (if now - last_send_receive_time m < 1000 \<and> ctx m \<noteq> None
          then [utrans_print_perf_info (ctx m)] else [])"
    by (simp add: PerfMetricsLoggingThread_tick_def Let_def)
next
  assume off: "\<not> TRANSFER_ENGINE_ENABLE_PERF_METRICS opts"
  let ?r = "Start opts kBindPortMaxRetry env m"
  have k: "perf_logging_thread (snd ?r) = perf_logging_thread m
      \<and> perf_logging_thread_running (snd ?r) = perf_logging_thread_running m"
  proof (cases "fst ?r")
    case False
    from Start_failed_keeps [OF False] show ?thesis by simp
  next
    case True
    from Start_succeeded_thread [OF True] off show ?thesis by simp
  qed
  from k show "perf_logging_thread (snd ?r) = perf_logging_thread m" by simp
  from k show "perf_logging_thread_running (snd ?r) = perf_logging_thread_running m" by simp
  from Start_no_thread_start [OF off, of m kBindPortMaxRetry env]
  show "thread_start \<notin> set (new_events m (snd ?r))"
    by (auto simp add: extends_without_def)
qed

theorem perf_tick_witness:
  "events (PerfMetricsLoggingThread_tick 900 started0)
       = events started0 @ [sleep_for 500, utrans_print_perf_info (Some 1)]
   \<and> events (PerfMetricsLoggingThread_tick 1000 started0)
       = events started0 @ [sleep_for 500]
   \<and> events (PerfMetricsLoggingThread_tick 900 orphaned0)
       = events orphaned0 @ [sleep_for 500]
   \<and> \<not> TRANSFER_ENGINE_ENABLE_PERF_METRICS opts_noperf
   \<and> \<not> perf_logging_thread (snd (Start opts_noperf 3 env0 (New opts0)))
   \<and> thread_start \<notin> set (new_events (New opts0) (snd (Start opts_noperf 3 env0 (New opts0))))"
proof -
  have off: "\<not> TRANSFER_ENGINE_ENABLE_PERF_METRICS opts_noperf"
    by (simp add: opts_noperf_def)
  have f: "perf_stats_interval_ms started0 = 500" "last_send_receive_time started0 = 0"
      "perf_stats_interval_ms orphaned0 = 500" "ctx orphaned0 = None"
    by code_simp+
  have n: "\<not> perf_logging_thread (New opts0)" by (simp add: New_def)
  note a = perf_tick [of 900 started0 opts0 3 env0, THEN conjunct1]
  note b = perf_tick [of 1000 started0 opts0 3 env0, THEN conjunct1]
  note c = perf_tick [of 900 orphaned0 opts0 3 env0, THEN conjunct1]
  note d = perf_tick [of 0 "New opts0" opts_noperf 3 env0, THEN conjunct2, THEN mp, OF off]
  show ?thesis
    using off a b c d n by (simp add: f started0_fields)
qed

end
